theory Spec2Isabelle
  imports Complex_Main "HOL-Library.Stream"
begin

section \<open>Dungeon battle simulator: the combat core of \<^verbatim>\<open>dungeon_sim.py\<close>\<close>

text \<open>
  The development embeds the classes \<^verbatim>\<open>Hero\<close>, \<^verbatim>\<open>Enemy\<close> and \<^verbatim>\<open>BattleSimulator\<close> and the
  function \<^verbatim>\<open>validate_arguments\<close>. Python integers are \<open>int\<close>. Python floats are read as
  exact rationals: the literals \<^verbatim>\<open>0.15\<close>, \<^verbatim>\<open>0.002\<close>, \<^verbatim>\<open>0.75\<close> \<open>\<dots>\<close> stand for the decimal
  fractions they spell, and float arithmetic is exact arithmetic on \<open>rat\<close>. On integers below
  \<open>2\<^sup>5\<^sup>0\<close> in magnitude, so for every level that \<^verbatim>\<open>validate_arguments\<close> admits, each product of
  an integer with \<^verbatim>\<open>1.0\<close>, \<^verbatim>\<open>1.5\<close> or \<^verbatim>\<open>2.0\<close> that the program forms is exact in binary floating
  point as well, and only the critical chance is idealised by this reading, by a rounding
  error. An integer is converted to a float before it is multiplied by one, and the conversion
  raises \<^verbatim>\<open>OverflowError\<close> on an integer beyond the doubles: the constructor of the hero, which
  accepts every level, meets this in \<^verbatim>\<open>self.level * 0.002\<close>, and \<open>py_float\<close> models it there. The
  products in the constructor of the enemy and in a critical hit are the exact ones throughout,
  which is the code on integers below \<open>2\<^sup>5\<^sup>0\<close>.
\<close>

subsection \<open>Python values and errors\<close>

text \<open>The exceptions the modelled code can raise, with what they report.\<close>

datatype value_error =
    LevelOutOfRange int
  | InvalidHeroClass string
  | InvalidBattleDate string

datatype py_error =
    ValueError value_error
  | KeyError string
  | OverflowError

text \<open>\<^verbatim>\<open>int(x)\<close> on a float truncates towards zero.\<close>

definition py_int :: "rat \<Rightarrow> int" where
  "py_int q = (if 0 \<le> q then \<lfloor>q\<rfloor> else \<lceil>q\<rceil>)"

text \<open>
  The conversion of an \<^verbatim>\<open>int\<close> to a \<^verbatim>\<open>float\<close>, which precedes every product of the two. The
  largest double is \<open>2\<^sup>1\<^sup>0\<^sup>2\<^sup>4 - 2\<^sup>9\<^sup>7\<^sup>1\<close>; rounding to nearest, ties to even, takes the integers
  from \<open>2\<^sup>1\<^sup>0\<^sup>2\<^sup>4 - 2\<^sup>9\<^sup>7\<^sup>0\<close> on beyond it, and for these the conversion raises
  \<^verbatim>\<open>OverflowError\<close>.
\<close>

definition int_float_limit :: int where
  "int_float_limit = 2 ^ 1024 - 2 ^ 970"

definition py_float :: "int \<Rightarrow> py_error + rat" where
  "py_float n = (if \<bar>n\<bar> < int_float_limit then Inr (of_int n) else Inl OverflowError)"

text \<open>Subscription \<^verbatim>\<open>d[k]\<close> of a dictionary raises \<^verbatim>\<open>KeyError\<close> on a missing key.\<close>

definition subscript :: "(string \<rightharpoonup> 'v) \<Rightarrow> string \<Rightarrow> py_error + 'v" where
  "subscript d k = (case d k of None \<Rightarrow> Inl (KeyError k) | Some v \<Rightarrow> Inr v)"

subsection \<open>The shared random generator\<close>

text \<open>
  The module-level generator of \<^verbatim>\<open>random\<close> is an endless supply of entropy, modelled as a
  stream of natural numbers that every call consumes from the front. \<^verbatim>\<open>random.random()\<close>
  returns a multiple of \<open>2\<^sup>-\<^sup>5\<^sup>3\<close> in \<open>[0, 1)\<close>, \<^verbatim>\<open>random.randint(a, b)\<close> an integer of
  \<open>[a, b]\<close> and \<^verbatim>\<open>random.choice(xs)\<close> an element of \<open>xs\<close>; each of their results is reached by
  some stream.
\<close>

type_synonym rng = "nat stream"

definition random :: "rng \<Rightarrow> rat \<times> rng" where
  "random g = (of_nat (shd g mod 2 ^ 53) / 2 ^ 53, stl g)"

definition randint :: "int \<Rightarrow> int \<Rightarrow> rng \<Rightarrow> int \<times> rng" where
  "randint a b g = (a + int (shd g) mod (b - a + 1), stl g)"

definition choice :: "'a list \<Rightarrow> rng \<Rightarrow> 'a \<times> rng" where
  "choice xs g = (xs ! (shd g mod length xs), stl g)"

subsection \<open>Hero\<close>

record hero =
  name :: string
  hero_class :: string
  level :: int
  hardcore_mode :: bool
  max_hp :: int
  current_hp :: int
  attack :: int
  defense :: int
  critical_chance :: rat

definition VALID_CLASSES :: "string list" where
  "VALID_CLASSES = [''Warrior'', ''Mage'', ''Rogue'']"

definition base_hp :: "string \<rightharpoonup> int" where
  "base_hp = [''Warrior'' \<mapsto> 150, ''Mage'' \<mapsto> 100, ''Rogue'' \<mapsto> 120]"

definition base_attack :: "string \<rightharpoonup> int" where
  "base_attack = [''Warrior'' \<mapsto> 25, ''Mage'' \<mapsto> 35, ''Rogue'' \<mapsto> 30]"

definition base_defense :: "string \<rightharpoonup> int" where
  "base_defense = [''Warrior'' \<mapsto> 20, ''Mage'' \<mapsto> 10, ''Rogue'' \<mapsto> 15]"

definition base_crit :: "string \<rightharpoonup> rat" where
  "base_crit = [''Warrior'' \<mapsto> 15 / 100, ''Mage'' \<mapsto> 25 / 100, ''Rogue'' \<mapsto> 35 / 100]"

definition calculate_max_hp :: "string \<Rightarrow> int \<Rightarrow> py_error + int" where
  "calculate_max_hp cls lvl =
     (case subscript base_hp cls of Inl e \<Rightarrow> Inl e | Inr b \<Rightarrow> Inr (b + lvl * 10))"

definition calculate_attack :: "string \<Rightarrow> int \<Rightarrow> py_error + int" where
  "calculate_attack cls lvl =
     (case subscript base_attack cls of Inl e \<Rightarrow> Inl e | Inr b \<Rightarrow> Inr (b + lvl * 2))"

definition calculate_defense :: "string \<Rightarrow> int \<Rightarrow> py_error + int" where
  "calculate_defense cls lvl =
     (case subscript base_defense cls of Inl e \<Rightarrow> Inl e | Inr b \<Rightarrow> Inr (b + lvl * 1))"

definition calculate_critical_chance :: "string \<Rightarrow> int \<Rightarrow> py_error + rat" where
  "calculate_critical_chance cls lvl =
     (case subscript base_crit cls of Inl e \<Rightarrow> Inl e
      | Inr b \<Rightarrow>
          (case py_float lvl of Inl e \<Rightarrow> Inl e
           | Inr l \<Rightarrow> Inr (min (b + l * (2 / 1000)) (75 / 100))))"

text \<open>
  \<^verbatim>\<open>Hero.__init__\<close>: the four derivations run in the order of the source, and the first
  failing table lookup aborts the construction. The level is not inspected; the critical
  chance converts it to a float, which fails on a level beyond the doubles.
\<close>

definition Hero_init :: "string \<Rightarrow> string \<Rightarrow> int \<Rightarrow> bool \<Rightarrow> py_error + hero" where
  "Hero_init nm cls lvl hc =
     (case calculate_max_hp cls lvl of Inl e \<Rightarrow> Inl e | Inr mhp \<Rightarrow>
     (case calculate_attack cls lvl of Inl e \<Rightarrow> Inl e | Inr atk \<Rightarrow>
     (case calculate_defense cls lvl of Inl e \<Rightarrow> Inl e | Inr dfn \<Rightarrow>
     (case calculate_critical_chance cls lvl of Inl e \<Rightarrow> Inl e | Inr crit \<Rightarrow>
        Inr \<lparr>name = nm, hero_class = cls, level = lvl, hardcore_mode = hc,
             max_hp = mhp, current_hp = mhp, attack = atk, defense = dfn,
             critical_chance = crit\<rparr>))))"

text \<open>\<^verbatim>\<open>Hero.attack_enemy\<close> returns the raw damage and the critical flag.\<close>

definition attack_enemy :: "hero \<Rightarrow> rng \<Rightarrow> (int \<times> bool) \<times> rng" where
  "attack_enemy h g =
     (let (u, g1) = random g;
          is_critical = (u < critical_chance h);
          (r, g2) = randint (- 5) 10 g1;
          damage = attack h + r;
          damage = (if is_critical then py_int (of_int damage * 2) else damage)
      in ((damage, is_critical), g2))"

text \<open>\<^verbatim>\<open>Hero.take_damage\<close> returns the updated hero and the damage dealt.\<close>

definition take_damage :: "hero \<Rightarrow> int \<Rightarrow> hero \<times> int" where
  "take_damage h damage =
     (let actual_damage = max (damage - defense h div 2) 1
      in (h\<lparr>current_hp := current_hp h - actual_damage\<rparr>, actual_damage))"

definition is_alive :: "hero \<Rightarrow> bool" where
  "is_alive h = (current_hp h > 0)"

subsection \<open>Enemy\<close>

record enemy =
  e_level :: int
  e_hardcore_mode :: bool
  e_name :: string
  e_max_hp :: int
  e_current_hp :: int
  e_attack :: int
  e_defense :: int

definition generate_name :: "rng \<Rightarrow> string \<times> rng" where
  "generate_name g =
     (let prefixes = [''Dark'', ''Ancient'', ''Cursed'', ''Vile'', ''Shadow'', ''Blood''];
          creatures = [''Dragon'', ''Demon'', ''Golem'', ''Wraith'', ''Beast'', ''Lich''];
          (p, g1) = choice prefixes g;
          (c, g2) = choice creatures g1
      in (p @ '' '' @ c, g2))"

definition Enemy_init :: "int \<Rightarrow> bool \<Rightarrow> rng \<Rightarrow> enemy \<times> rng" where
  "Enemy_init hero_level hc g =
     (let (off, g1) = randint (- 2) 3 g;
          lvl = hero_level + off;
          difficulty_multiplier = (if hc then 15 / 10 else 1 :: rat);
          (nm, g2) = generate_name g1;
          mhp = py_int (of_int (100 + lvl * 12) * difficulty_multiplier)
      in (\<lparr>e_level = lvl, e_hardcore_mode = hc, e_name = nm,
            e_max_hp = mhp, e_current_hp = mhp,
            e_attack = py_int (of_int (20 + lvl * 2) * difficulty_multiplier),
            e_defense = 10 + lvl\<rparr>, g2))"

text \<open>\<^verbatim>\<open>Enemy.attack_hero\<close>: a miss returns 0 and draws no damage roll.\<close>

definition attack_hero :: "enemy \<Rightarrow> rng \<Rightarrow> int \<times> rng" where
  "attack_hero e g =
     (let (u, g1) = random g
      in if u < 15 / 100 then (0, g1)
         else (let (r, g2) = randint (- 3) 8 g1 in (e_attack e + r, g2)))"

definition e_take_damage :: "enemy \<Rightarrow> int \<Rightarrow> enemy \<times> int" where
  "e_take_damage e damage =
     (let actual_damage = max (damage - e_defense e div 2) 1
      in (e\<lparr>e_current_hp := e_current_hp e - actual_damage\<rparr>, actual_damage))"

definition e_is_alive :: "enemy \<Rightarrow> bool" where
  "e_is_alive e = (e_current_hp e > 0)"

subsection \<open>BattleSimulator\<close>

text \<open>
  A log line is \<^verbatim>\<open>[timestamp] Turn n: message\<close>. The wall-clock timestamp is left out; the
  turn number is kept, and the message is kept as the event it narrates together with the
  values formatted into it.
\<close>

datatype event =
    BattleStart
  | Versus string string int string int
  | HeroStats int int int
  | EnemyStats int int int
  | HardcoreActive
  | Blank
  | HeroAttacks string int int bool
  | EnemyHP int int
  | EnemyDefeated string
  | EnemyMisses string
  | EnemyAttacks string int int
  | HeroHP int int
  | HeroDefeated string
  | BattleTimeout
  | BattleEnd bool

record simulator =
  hero :: hero
  enemy :: enemy
  battle_log :: "(int \<times> event) list"
  turn_count :: int
  max_turns :: int

definition BattleSimulator_init :: "hero \<Rightarrow> enemy \<Rightarrow> simulator" where
  "BattleSimulator_init h e =
     \<lparr>hero = h, enemy = e, battle_log = [], turn_count = 0, max_turns = 50\<rparr>"

definition log_event :: "simulator \<Rightarrow> event \<Rightarrow> simulator" where
  "log_event s message = s\<lparr>battle_log := battle_log s @ [(turn_count s, message)]\<rparr>"

text \<open>
  One pass through the body of the \<^verbatim>\<open>while\<close> loop of \<^verbatim>\<open>simulate_battle\<close>. The third
  component tells whether the pass left the loop through \<^verbatim>\<open>break\<close>.
\<close>

definition loop_body :: "simulator \<Rightarrow> rng \<Rightarrow> simulator \<times> rng \<times> bool" where
  "loop_body s g =
     (let s1 = s\<lparr>turn_count := turn_count s + 1\<rparr>;
          ((hero_damage, is_crit), g1) = attack_enemy (hero s1) g;
          (e1, actual_damage) = e_take_damage (enemy s1) hero_damage;
          s2 = s1\<lparr>enemy := e1\<rparr>;
          s3 = log_event s2 (HeroAttacks (name (hero s2)) hero_damage actual_damage is_crit);
          s4 = log_event s3 (EnemyHP (max 0 (e_current_hp (enemy s3))) (e_max_hp (enemy s3)))
      in if \<not> e_is_alive (enemy s4)
         then (log_event s4 (EnemyDefeated (e_name (enemy s4))), g1, True)
         else
           (let (enemy_damage, g2) = attack_hero (enemy s4) g1;
                s5 = (if enemy_damage = 0
                      then log_event s4 (EnemyMisses (e_name (enemy s4)))
                      else (let (h1, actual_damage) = take_damage (hero s4) enemy_damage
                            in log_event (s4\<lparr>hero := h1\<rparr>)
                                 (EnemyAttacks (e_name (enemy s4)) enemy_damage actual_damage)));
                s6 = log_event s5 (HeroHP (max 0 (current_hp (hero s5))) (max_hp (hero s5)));
                s7 = log_event s6 Blank
            in if \<not> is_alive (hero s7)
               then (log_event s7 (HeroDefeated (name (hero s7))), g2, True)
               else (s7, g2, False)))"

function battle_loop :: "simulator \<Rightarrow> rng \<Rightarrow> simulator \<times> rng" where
  "battle_loop s g =
     (if is_alive (hero s) \<and> e_is_alive (enemy s) \<and> turn_count s < max_turns s
      then (case loop_body s g of
              (s', g', broke) \<Rightarrow> if broke then (s', g') else battle_loop s' g')
      else (s, g))"
  by pat_completeness auto
termination
proof (relation "measure (\<lambda>(s, g). nat (max_turns s - turn_count s))")
  show "wf (measure (\<lambda>(s :: simulator, g :: rng). nat (max_turns s - turn_count s)))"
    by simp
next
  fix s :: simulator and g :: rng and x y xa ya
  assume run: "is_alive (hero s) \<and> e_is_alive (enemy s) \<and> turn_count s < max_turns s"
    and body: "(x, y) = loop_body s g"
  have "turn_count (fst (loop_body s g)) = turn_count s + 1"
    and "max_turns (fst (loop_body s g)) = max_turns s"
    by (simp_all add: loop_body_def log_event_def Let_def split: prod.splits)
  with body [symmetric] have "turn_count x = turn_count s + 1" "max_turns x = max_turns s"
    by simp_all
  with run show "((x, xa), (s, g)) \<in> measure (\<lambda>(s, g). nat (max_turns s - turn_count s))"
    by simp
qed

declare battle_loop.simps [simp del]

text \<open>
  \<^verbatim>\<open>simulate_battle\<close> returns the victory flag; the simulator and the generator it leaves
  behind are returned with it.
\<close>

definition simulate_battle :: "simulator \<Rightarrow> rng \<Rightarrow> bool \<times> simulator \<times> rng" where
  "simulate_battle s g =
     (let s = log_event s BattleStart;
          s = log_event s (Versus (name (hero s)) (hero_class (hero s)) (level (hero s))
                             (e_name (enemy s)) (e_level (enemy s)));
          s = log_event s (HeroStats (max_hp (hero s)) (attack (hero s)) (defense (hero s)));
          s = log_event s (EnemyStats (e_max_hp (enemy s)) (e_attack (enemy s))
                             (e_defense (enemy s)));
          s = (if hardcore_mode (hero s) then log_event s HardcoreActive else s);
          s = log_event s Blank;
          (s, g) = battle_loop s g
      in if turn_count s \<ge> max_turns s
         then (False, log_event s BattleTimeout, g)
         else (let victory = is_alive (hero s)
               in (victory, log_event s (BattleEnd victory), g)))"

subsection \<open>Argument validation\<close>

record args =
  player_name :: string
  a_hero_class :: string
  a_level :: int
  a_hardcore_mode :: bool
  battle_date :: string

text \<open>
  \<^verbatim>\<open>validate_arguments\<close>. Whether the library call
  \<^verbatim>\<open>datetime.strptime(args.battle_date, '%Y-%m-%d')\<close> succeeds is the parameter \<open>date_ok\<close>.
\<close>

definition validate_arguments :: "bool \<Rightarrow> args \<Rightarrow> py_error + unit" where
  "validate_arguments date_ok a =
     (if a_level a < 1 \<or> a_level a > 100
      then Inl (ValueError (LevelOutOfRange (a_level a)))
      else if a_hero_class a \<notin> set VALID_CLASSES
      then Inl (ValueError (InvalidHeroClass (a_hero_class a)))
      else if \<not> date_ok
      then Inl (ValueError (InvalidBattleDate (battle_date a)))
      else Inr ())"

subsection \<open>The stat table of the specification\<close>

text \<open>
  The table of section 4.1 of the specification, row by row: class, base health, base attack,
  base defense, base critical chance. It is written from the specification, not from the
  code, and is what the derivation of the code is compared with.
\<close>

definition spec_table :: "(string \<times> int \<times> int \<times> int \<times> rat) list" where
  "spec_table =
     [(''Warrior'', 150, 25, 20, 15 / 100),
      (''Mage'', 100, 35, 10, 25 / 100),
      (''Rogue'', 120, 30, 15, 35 / 100)]"

subsection \<open>Example combatants\<close>

text \<open>
  The hero \<^verbatim>\<open>Hero('Aria', 'Warrior', 1, False)\<close> and the enemy that \<^verbatim>\<open>Enemy(1, False)\<close> builds
  when every draw of the generator is 0; the concrete instances below are stated on them.
\<close>

definition example_hero :: hero where
  "example_hero =
     \<lparr>name = ''Aria'', hero_class = ''Warrior'', level = 1, hardcore_mode = False,
      max_hp = 160, current_hp = 160, attack = 27, defense = 21,
      critical_chance = 152 / 1000\<rparr>"

definition example_enemy :: enemy where
  "example_enemy =
     \<lparr>e_level = - 1, e_hardcore_mode = False, e_name = ''Dark Dragon'',
      e_max_hp = 88, e_current_hp = 88, e_attack = 18, e_defense = 9\<rparr>"

text \<open>
  The enemy that \<^verbatim>\<open>Enemy(22, False)\<close> builds on the draws 5, 0, 0 (offset 3, level 25), and a
  generator that repeats three draws for ever: no critical hit, a damage roll of -2 for the
  hero, and a miss for the enemy.
\<close>

definition slow_enemy :: enemy where
  "slow_enemy =
     \<lparr>e_level = 25, e_hardcore_mode = False, e_name = ''Dark Dragon'',
      e_max_hp = 400, e_current_hp = 400, e_attack = 70, e_defense = 35\<rparr>"

definition slow_draws :: rng where
  "slow_draws = cycle [2 ^ 52, 3, 0]"

section \<open>Auxiliary facts\<close>

lemma py_int_of_int: "py_int (of_int k) = k"
  by (simp add: py_int_def)

lemma py_int_nonneg: "0 \<le> q \<Longrightarrow> py_int q = \<lfloor>q\<rfloor>"
  by (simp add: py_int_def)

lemma randint_range: "a \<le> b \<Longrightarrow> a \<le> fst (randint a b g) \<and> fst (randint a b g) \<le> b"
proof -
  assume "a \<le> b"
  then have "0 < b - a + 1" by simp
  then have "0 \<le> int (shd g) mod (b - a + 1)" "int (shd g) mod (b - a + 1) < b - a + 1"
    by (rule pos_mod_sign, rule pos_mod_bound)
  then show ?thesis by (simp add: randint_def)
qed

lemma int_float_limit_large: "2 ^ 53 < int_float_limit"
  by (simp add: int_float_limit_def)

lemma level_converts: "- 1000 \<le> lvl \<Longrightarrow> lvl \<le> 1000 \<Longrightarrow> \<bar>lvl\<bar> < int_float_limit"
  using int_float_limit_large by simp

lemma py_float_in_range: "\<bar>n\<bar> < int_float_limit \<Longrightarrow> py_float n = Inr (of_int n)"
  by (simp add: py_float_def)

lemma py_float_overflow: "int_float_limit \<le> \<bar>n\<bar> \<Longrightarrow> py_float n = Inl OverflowError"
  by (simp add: py_float_def)

lemmas hero_defs = Hero_init_def calculate_max_hp_def calculate_attack_def
  calculate_defense_def calculate_critical_chance_def subscript_def
  base_hp_def base_attack_def base_defense_def base_crit_def

lemma Hero_init_Warrior:
  assumes "\<bar>lvl\<bar> < int_float_limit"
  shows "Hero_init nm ''Warrior'' lvl hc =
     Inr \<lparr>name = nm, hero_class = ''Warrior'', level = lvl, hardcore_mode = hc,
          max_hp = 150 + lvl * 10, current_hp = 150 + lvl * 10,
          attack = 25 + lvl * 2, defense = 20 + lvl * 1,
          critical_chance = min (15 / 100 + of_int lvl * (2 / 1000)) (75 / 100)\<rparr>"
  by (simp add: hero_defs py_float_in_range [OF assms])

lemma Hero_init_Mage:
  assumes "\<bar>lvl\<bar> < int_float_limit"
  shows "Hero_init nm ''Mage'' lvl hc =
     Inr \<lparr>name = nm, hero_class = ''Mage'', level = lvl, hardcore_mode = hc,
          max_hp = 100 + lvl * 10, current_hp = 100 + lvl * 10,
          attack = 35 + lvl * 2, defense = 10 + lvl * 1,
          critical_chance = min (25 / 100 + of_int lvl * (2 / 1000)) (75 / 100)\<rparr>"
  by (simp add: hero_defs py_float_in_range [OF assms])

lemma Hero_init_Rogue:
  assumes "\<bar>lvl\<bar> < int_float_limit"
  shows "Hero_init nm ''Rogue'' lvl hc =
     Inr \<lparr>name = nm, hero_class = ''Rogue'', level = lvl, hardcore_mode = hc,
          max_hp = 120 + lvl * 10, current_hp = 120 + lvl * 10,
          attack = 30 + lvl * 2, defense = 15 + lvl * 1,
          critical_chance = min (35 / 100 + of_int lvl * (2 / 1000)) (75 / 100)\<rparr>"
  by (simp add: hero_defs py_float_in_range [OF assms])

lemma Hero_init_invalid:
  "cls \<notin> set VALID_CLASSES \<Longrightarrow> Hero_init nm cls lvl hc = Inl (KeyError cls)"
  by (simp add: VALID_CLASSES_def Hero_init_def calculate_max_hp_def subscript_def base_hp_def)

lemma Hero_init_overflow:
  assumes "cls \<in> set VALID_CLASSES" and "int_float_limit \<le> \<bar>lvl\<bar>"
  shows "Hero_init nm cls lvl hc = Inl OverflowError"
proof -
  from assms(1) consider "cls = ''Warrior''" | "cls = ''Mage''" | "cls = ''Rogue''"
    by (auto simp: VALID_CLASSES_def)
  then show ?thesis
  proof cases
    case 1 then show ?thesis by (simp add: hero_defs py_float_overflow [OF assms(2)])
  next
    case 2 then show ?thesis by (simp add: hero_defs py_float_overflow [OF assms(2)])
  next
    case 3 then show ?thesis by (simp add: hero_defs py_float_overflow [OF assms(2)])
  qed
qed

lemma Hero_init_Inr:
  assumes "Hero_init nm cls lvl hc = Inr h"
  shows "cls \<in> set VALID_CLASSES \<and> \<bar>lvl\<bar> < int_float_limit"
proof -
  have c: "cls \<in> set VALID_CLASSES"
  proof (rule ccontr)
    assume "cls \<notin> set VALID_CLASSES"
    from Hero_init_invalid [OF this, of nm lvl hc] assms show False by simp
  qed
  have "\<bar>lvl\<bar> < int_float_limit"
  proof (rule ccontr)
    assume "\<not> \<bar>lvl\<bar> < int_float_limit"
    then have "int_float_limit \<le> \<bar>lvl\<bar>" by simp
    from Hero_init_overflow [OF c this, of nm hc] assms show False by simp
  qed
  with c show ?thesis ..
qed

lemma spec_table_rows:
  assumes "map_of spec_table cls = Some (bhp, batk, bdef, bcrit)"
  shows "cls = ''Warrior'' \<and> bhp = 150 \<and> batk = 25 \<and> bdef = 20 \<and> bcrit = 15 / 100
       \<or> cls = ''Mage'' \<and> bhp = 100 \<and> batk = 35 \<and> bdef = 10 \<and> bcrit = 25 / 100
       \<or> cls = ''Rogue'' \<and> bhp = 120 \<and> batk = 30 \<and> bdef = 15 \<and> bcrit = 35 / 100"
  using assms by (simp add: spec_table_def split: if_splits)

lemma spec_table_dom: "(map_of spec_table cls \<noteq> None) = (cls \<in> set VALID_CLASSES)"
  unfolding map_of_eq_None_iff by (simp add: spec_table_def VALID_CLASSES_def)

lemma Hero_init_valid_flag:
  assumes "cls \<in> set VALID_CLASSES" and "\<bar>lvl\<bar> < int_float_limit"
  shows "\<exists>h. Hero_init nm cls lvl False = Inr h \<and>
             Hero_init nm cls lvl True = Inr (h\<lparr>hardcore_mode := True\<rparr>)"
proof -
  from assms(1) consider "cls = ''Warrior''" | "cls = ''Mage''" | "cls = ''Rogue''"
    by (auto simp: VALID_CLASSES_def)
  then show ?thesis
  proof cases
    case 1 then show ?thesis by (simp only: Hero_init_Warrior [OF assms(2)]) simp
  next
    case 2 then show ?thesis by (simp only: Hero_init_Mage [OF assms(2)]) simp
  next
    case 3 then show ?thesis by (simp only: Hero_init_Rogue [OF assms(2)]) simp
  qed
qed

subsection \<open>One pass of the loop\<close>

lemma loop_body_kill:
  assumes "attack_enemy (hero s) g = ((d, c), g1)"
    and "e_take_damage (enemy s) d = (e1, ad)"
    and "\<not> e_is_alive e1"
  shows "loop_body s g =
    (s\<lparr>turn_count := turn_count s + 1, enemy := e1,
       battle_log := battle_log s @
         [(turn_count s + 1, HeroAttacks (name (hero s)) d ad c),
          (turn_count s + 1, EnemyHP (max 0 (e_current_hp e1)) (e_max_hp e1)),
          (turn_count s + 1, EnemyDefeated (e_name e1))]\<rparr>, g1, True)"
  using assms by (simp add: loop_body_def log_event_def Let_def)


lemma loop_body_miss:
  assumes "attack_enemy (hero s) g = ((d, c), g1)"
    and "e_take_damage (enemy s) d = (e1, ad)"
    and "e_is_alive e1"
    and "attack_hero e1 g1 = (0, g2)"
  shows "loop_body s g =
    (s\<lparr>turn_count := turn_count s + 1, enemy := e1,
       battle_log := battle_log s @
         [(turn_count s + 1, HeroAttacks (name (hero s)) d ad c),
          (turn_count s + 1, EnemyHP (max 0 (e_current_hp e1)) (e_max_hp e1)),
          (turn_count s + 1, EnemyMisses (e_name e1)),
          (turn_count s + 1, HeroHP (max 0 (current_hp (hero s))) (max_hp (hero s))),
          (turn_count s + 1, Blank)] @
         (if is_alive (hero s) then [] else [(turn_count s + 1, HeroDefeated (name (hero s)))])\<rparr>,
     g2, \<not> is_alive (hero s))"
  using assms by (simp add: loop_body_def log_event_def Let_def)

lemma loop_body_hit:
  assumes "attack_enemy (hero s) g = ((d, c), g1)"
    and "e_take_damage (enemy s) d = (e1, ad)"
    and "e_is_alive e1"
    and "attack_hero e1 g1 = (ed, g2)" and "ed \<noteq> 0"
    and "take_damage (hero s) ed = (h1, ah)"
  shows "loop_body s g =
    (s\<lparr>turn_count := turn_count s + 1, enemy := e1, hero := h1,
       battle_log := battle_log s @
         [(turn_count s + 1, HeroAttacks (name (hero s)) d ad c),
          (turn_count s + 1, EnemyHP (max 0 (e_current_hp e1)) (e_max_hp e1)),
          (turn_count s + 1, EnemyAttacks (e_name e1) ed ah),
          (turn_count s + 1, HeroHP (max 0 (current_hp h1)) (max_hp h1)),
          (turn_count s + 1, Blank)] @
         (if is_alive h1 then [] else [(turn_count s + 1, HeroDefeated (name h1))])\<rparr>,
     g2, \<not> is_alive h1)"
  using assms by (simp add: loop_body_def log_event_def Let_def)

lemma take_damage_fields:
  "take_damage h d = (h1, ah) \<Longrightarrow>
     current_hp h1 < current_hp h \<and> max_hp h1 = max_hp h \<and> name h1 = name h \<and>
     attack h1 = attack h \<and> defense h1 = defense h \<and> 1 \<le> ah"
  by (auto simp: take_damage_def Let_def)

lemma e_take_damage_fields:
  "e_take_damage e d = (e1, ad) \<Longrightarrow>
     e_current_hp e1 < e_current_hp e \<and> e_max_hp e1 = e_max_hp e \<and> e_name e1 = e_name e \<and>
     e_attack e1 = e_attack e \<and> e_defense e1 = e_defense e \<and> 1 \<le> ad"
  by (auto simp: e_take_damage_def Let_def)


lemma loop_body_step:
  assumes "loop_body s g = (s', g', broke)"
  shows "turn_count s' = turn_count s + 1 \<and> max_turns s' = max_turns s \<and>
         current_hp (hero s') \<le> current_hp (hero s) \<and>
         e_current_hp (enemy s') < e_current_hp (enemy s) \<and>
         max_hp (hero s') = max_hp (hero s) \<and> e_max_hp (enemy s') = e_max_hp (enemy s) \<and>
         e_attack (enemy s') = e_attack (enemy s)"
proof -
  obtain d c g1 where a: "attack_enemy (hero s) g = ((d, c), g1)"
    by (cases "attack_enemy (hero s) g") auto
  obtain e1 ad where t: "e_take_damage (enemy s) d = (e1, ad)"
    by (cases "e_take_damage (enemy s) d") auto
  note ef = e_take_damage_fields [OF t]
  show ?thesis
  proof (cases "e_is_alive e1")
    case False
    from assms have "s' = fst (loop_body s g)" by simp
    then show ?thesis using ef by (simp add: loop_body_kill [OF a t False])
  next
    case True
    obtain ed g2 where h: "attack_hero e1 g1 = (ed, g2)"
      by (cases "attack_hero e1 g1") auto
    show ?thesis
    proof (cases "ed = 0")
      case True
      with h have h0: "attack_hero e1 g1 = (0, g2)" by simp
      from assms have "s' = fst (loop_body s g)" by simp
      then show ?thesis using ef by (simp add: loop_body_miss [OF a t \<open>e_is_alive e1\<close> h0])
    next
      case False
      obtain h1 ah where td: "take_damage (hero s) ed = (h1, ah)"
        by (cases "take_damage (hero s) ed") auto
      from assms have "s' = fst (loop_body s g)" by simp
      then show ?thesis using ef take_damage_fields [OF td]
        by (simp add: loop_body_hit [OF a t \<open>e_is_alive e1\<close> h False td])
    qed
  qed
qed

subsection \<open>The loop and the whole battle\<close>

lemma battle_loop_stop:
  assumes "\<not> (is_alive (hero s) \<and> e_is_alive (enemy s) \<and> turn_count s < max_turns s)"
  shows "battle_loop s g = (s, g)"
  by (subst battle_loop.simps) (rule if_not_P [OF assms])

lemma battle_loop_break:
  assumes "is_alive (hero s) \<and> e_is_alive (enemy s) \<and> turn_count s < max_turns s"
    and "loop_body s g = (s', g', True)"
  shows "battle_loop s g = (s', g')"
  by (subst battle_loop.simps) (simp only: if_P [OF assms(1)] assms(2) prod.case if_True)

lemma battle_loop_continue:
  assumes "is_alive (hero s) \<and> e_is_alive (enemy s) \<and> turn_count s < max_turns s"
    and "loop_body s g = (s', g', False)"
  shows "battle_loop s g = battle_loop s' g'"
  by (subst battle_loop.simps) (simp only: if_P [OF assms(1)] assms(2) prod.case if_False)


lemma battle_loop_hp:
  "current_hp (hero (fst (battle_loop s g))) \<le> current_hp (hero s) \<and>
   e_current_hp (enemy (fst (battle_loop s g))) \<le> e_current_hp (enemy s) \<and>
   max_hp (hero (fst (battle_loop s g))) = max_hp (hero s) \<and>
   e_max_hp (enemy (fst (battle_loop s g))) = e_max_hp (enemy s) \<and>
   max_turns (fst (battle_loop s g)) = max_turns s \<and>
   turn_count s \<le> turn_count (fst (battle_loop s g))"
proof (induction s g rule: battle_loop.induct)
  case (1 s g)
  show ?case
  proof (cases "is_alive (hero s) \<and> e_is_alive (enemy s) \<and> turn_count s < max_turns s")
    case False
    show ?thesis by (simp add: battle_loop_stop [OF False])
  next
    case True
    obtain s' g' broke where lb: "loop_body s g = (s', g', broke)"
      by (cases "loop_body s g") auto
    note st = loop_body_step [OF lb]
    show ?thesis
    proof (cases broke)
      case True
      with lb have "loop_body s g = (s', g', True)" by simp
      from battle_loop_break [OF \<open>is_alive (hero s) \<and> e_is_alive (enemy s) \<and> turn_count s < max_turns s\<close> this]
        st
      show ?thesis by simp
    next
      case False
      with lb have lb': "loop_body s g = (s', g', False)" by simp
      note eq = battle_loop_continue [OF True lb']
      have "(s', (g', broke)) = loop_body s g" using lb by simp
      from "1.IH" [OF True this refl False] st show ?thesis
        by (simp add: eq)
    qed
  qed
qed

lemma battle_loop_turns:
  "turn_count s \<le> max_turns s \<Longrightarrow> turn_count (fst (battle_loop s g)) \<le> max_turns s"
proof (induction s g rule: battle_loop.induct)
  case (1 s g)
  show ?case
  proof (cases "is_alive (hero s) \<and> e_is_alive (enemy s) \<and> turn_count s < max_turns s")
    case False
    show ?thesis using "1.prems" by (simp add: battle_loop_stop [OF False])
  next
    case True
    obtain s' g' broke where lb: "loop_body s g = (s', g', broke)"
      by (cases "loop_body s g") auto
    note st = loop_body_step [OF lb]
    show ?thesis
    proof (cases broke)
      case True
      with lb have "loop_body s g = (s', g', True)" by simp
      from battle_loop_break [OF \<open>is_alive (hero s) \<and> e_is_alive (enemy s) \<and> turn_count s < max_turns s\<close> this]
        st \<open>is_alive (hero s) \<and> e_is_alive (enemy s) \<and> turn_count s < max_turns s\<close>
      show ?thesis by simp
    next
      case False
      with lb have lb': "loop_body s g = (s', g', False)" by simp
      note eq = battle_loop_continue [OF True lb']
      from st True have le: "turn_count s' \<le> max_turns s'" by simp
      have "(s', (g', broke)) = loop_body s g" using lb by simp
      from "1.IH" [OF True this refl False le] st show ?thesis
        by (simp add: eq)
    qed
  qed
qed

lemma log_event_fields:
  "hero (log_event s m) = hero s" "enemy (log_event s m) = enemy s"
  "turn_count (log_event s m) = turn_count s" "max_turns (log_event s m) = max_turns s"
  "battle_log (log_event s m) = battle_log s @ [(turn_count s, m)]"
  by (simp_all add: log_event_def)

lemma simulate_battle_struct:
  "\<exists>s0. hero s0 = hero s \<and> enemy s0 = enemy s \<and> turn_count s0 = turn_count s \<and>
        max_turns s0 = max_turns s \<and>
        simulate_battle s g =
          (if turn_count (fst (battle_loop s0 g)) \<ge> max_turns (fst (battle_loop s0 g))
           then (False, log_event (fst (battle_loop s0 g)) BattleTimeout, snd (battle_loop s0 g))
           else (is_alive (hero (fst (battle_loop s0 g))),
                 log_event (fst (battle_loop s0 g))
                   (BattleEnd (is_alive (hero (fst (battle_loop s0 g))))),
                 snd (battle_loop s0 g)))"
proof -
  define a where "a = log_event s BattleStart"
  define b where "b = log_event a (Versus (name (hero a)) (hero_class (hero a)) (level (hero a))
                             (e_name (enemy a)) (e_level (enemy a)))"
  define c where "c = log_event b (HeroStats (max_hp (hero b)) (attack (hero b)) (defense (hero b)))"
  define d where "d = log_event c (EnemyStats (e_max_hp (enemy c)) (e_attack (enemy c))
                             (e_defense (enemy c)))"
  define e where "e = (if hardcore_mode (hero d) then log_event d HardcoreActive else d)"
  define f where "f = log_event e Blank"
  have sb: "simulate_battle s g =
     (case battle_loop f g of (s, g) \<Rightarrow>
        if turn_count s \<ge> max_turns s
        then (False, log_event s BattleTimeout, g)
        else (let victory = is_alive (hero s)
              in (victory, log_event s (BattleEnd victory), g)))"
    unfolding simulate_battle_def a_def b_def c_def d_def e_def f_def Let_def ..
  have fa: "hero a = hero s" "enemy a = enemy s" "turn_count a = turn_count s"
    "max_turns a = max_turns s"
    by (simp_all add: a_def log_event_fields)
  have fb: "hero b = hero s" "enemy b = enemy s" "turn_count b = turn_count s"
    "max_turns b = max_turns s"
    by (simp_all add: b_def log_event_fields fa)
  have fc: "hero c = hero s" "enemy c = enemy s" "turn_count c = turn_count s"
    "max_turns c = max_turns s"
    by (simp_all add: c_def log_event_fields fb)
  have fd: "hero d = hero s" "enemy d = enemy s" "turn_count d = turn_count s"
    "max_turns d = max_turns s"
    by (simp_all add: d_def log_event_fields fc)
  have fe: "hero e = hero s" "enemy e = enemy s" "turn_count e = turn_count s"
    "max_turns e = max_turns s"
    by (simp_all add: e_def log_event_fields fd)
  have ff: "hero f = hero s" "enemy f = enemy s" "turn_count f = turn_count s"
    "max_turns f = max_turns s"
    by (simp_all add: f_def log_event_fields fe)
  have "simulate_battle s g =
          (if turn_count (fst (battle_loop f g)) \<ge> max_turns (fst (battle_loop f g))
           then (False, log_event (fst (battle_loop f g)) BattleTimeout, snd (battle_loop f g))
           else (is_alive (hero (fst (battle_loop f g))),
                 log_event (fst (battle_loop f g))
                   (BattleEnd (is_alive (hero (fst (battle_loop f g))))),
                 snd (battle_loop f g)))"
    unfolding sb by (simp only: split_beta Let_def)
  with ff show ?thesis by blast
qed

lemma simulate_battle_final:
  "\<exists>s0 m. hero s0 = hero s \<and> enemy s0 = enemy s \<and> turn_count s0 = turn_count s \<and>
        max_turns s0 = max_turns s \<and>
        fst (snd (simulate_battle s g)) = log_event (fst (battle_loop s0 g)) m"
proof -
  from simulate_battle_struct [of s g] obtain s0 where
    f: "hero s0 = hero s" "enemy s0 = enemy s" "turn_count s0 = turn_count s"
       "max_turns s0 = max_turns s"
    and sb: "simulate_battle s g =
          (if turn_count (fst (battle_loop s0 g)) \<ge> max_turns (fst (battle_loop s0 g))
           then (False, log_event (fst (battle_loop s0 g)) BattleTimeout, snd (battle_loop s0 g))
           else (is_alive (hero (fst (battle_loop s0 g))),
                 log_event (fst (battle_loop s0 g))
                   (BattleEnd (is_alive (hero (fst (battle_loop s0 g))))),
                 snd (battle_loop s0 g)))"
    by blast
  have "\<exists>m. fst (snd (simulate_battle s g)) = log_event (fst (battle_loop s0 g)) m"
    unfolding sb by (cases "turn_count (fst (battle_loop s0 g)) \<ge> max_turns (fst (battle_loop s0 g))")
      (simp_all only: if_True if_False fst_conv snd_conv, blast+)
  with f show ?thesis by blast
qed

lemma simulate_battle_hp:
  "current_hp (hero (fst (snd (simulate_battle s g)))) \<le> current_hp (hero s) \<and>
   e_current_hp (enemy (fst (snd (simulate_battle s g)))) \<le> e_current_hp (enemy s) \<and>
   max_hp (hero (fst (snd (simulate_battle s g)))) = max_hp (hero s) \<and>
   e_max_hp (enemy (fst (snd (simulate_battle s g)))) = e_max_hp (enemy s) \<and>
   max_turns (fst (snd (simulate_battle s g))) = max_turns s \<and>
   turn_count s \<le> turn_count (fst (snd (simulate_battle s g)))"
proof -
  from simulate_battle_final [of s g] obtain s0 m where
    f: "hero s0 = hero s" "enemy s0 = enemy s" "turn_count s0 = turn_count s"
       "max_turns s0 = max_turns s"
    and r: "fst (snd (simulate_battle s g)) = log_event (fst (battle_loop s0 g)) m"
    by blast
  from battle_loop_hp [of s0 g] f r show ?thesis by (simp add: log_event_fields)
qed

lemma simulate_battle_turns:
  assumes "turn_count s \<le> max_turns s"
  shows "turn_count (fst (snd (simulate_battle s g))) \<le> max_turns s"
proof -
  from simulate_battle_final [of s g] obtain s0 m where
    f: "hero s0 = hero s" "enemy s0 = enemy s" "turn_count s0 = turn_count s"
       "max_turns s0 = max_turns s"
    and r: "fst (snd (simulate_battle s g)) = log_event (fst (battle_loop s0 g)) m"
    by blast
  from f assms have "turn_count s0 \<le> max_turns s0" by simp
  from battle_loop_turns [OF this, of g] f r show ?thesis by (simp add: log_event_fields)
qed

lemma Hero_init_succeeds:
  assumes "cls \<in> set VALID_CLASSES" and "\<bar>lvl\<bar> < int_float_limit"
  shows "\<exists>h. Hero_init nm cls lvl hc = Inr h \<and> current_hp h = max_hp h \<and> level h = lvl"
proof -
  from assms(1) consider "cls = ''Warrior''" | "cls = ''Mage''" | "cls = ''Rogue''"
    by (auto simp: VALID_CLASSES_def)
  then show ?thesis
  proof cases
    case 1 then show ?thesis by (simp only: Hero_init_Warrior [OF assms(2)]) simp
  next
    case 2 then show ?thesis by (simp only: Hero_init_Mage [OF assms(2)]) simp
  next
    case 3 then show ?thesis by (simp only: Hero_init_Rogue [OF assms(2)]) simp
  qed
qed

subsection \<open>The example combatants and the enemy's attack\<close>

lemma py_int_numeral: "py_int (numeral n) = numeral n"
  by (simp add: py_int_def)

lemma example_hero_init: "Hero_init ''Aria'' ''Warrior'' 1 False = Inr example_hero"
proof -
  have "\<bar>1 :: int\<bar> < int_float_limit" by (rule level_converts) simp_all
  from Hero_init_Warrior [OF this] show ?thesis by (simp add: example_hero_def)
qed

lemma example_enemy_init: "Enemy_init 1 False (sconst 0) = (example_enemy, sconst 0)"
  by (simp add: Enemy_init_def randint_def generate_name_def choice_def example_enemy_def
      py_int_numeral Let_def)

lemma example_attack: "attack_enemy example_hero (sconst 0) = ((44, True), sconst 0)"
  by (simp add: attack_enemy_def random_def randint_def example_hero_def py_int_numeral Let_def)

lemma example_damage:
  "e_take_damage (example_enemy\<lparr>e_current_hp := hp\<rparr>) 44 =
     (example_enemy\<lparr>e_current_hp := hp - 40\<rparr>, 40)"
  by (simp add: e_take_damage_def example_enemy_def Let_def)

lemma example_miss: "attack_hero e (sconst 0) = (0, sconst 0)"
  by (simp add: attack_hero_def random_def Let_def)

lemma py_int_scale:
  assumes "0 \<le> k"
  shows "k \<le> py_int (of_int k * (if hc then 15 / 10 else 1))"
proof -
  from assms have "(of_int k :: rat) \<le> of_int k * (if hc then 15 / 10 else 1)"
    by simp
  moreover from assms have "(0::rat) \<le> of_int k * (if hc then 15 / 10 else 1)" by simp
  ultimately show ?thesis by (simp only: py_int_nonneg le_floor_iff)
qed

lemma Enemy_init_fields:
  "e_level (fst (Enemy_init hl hc g)) = hl + fst (randint (- 2) 3 g) \<and>
   e_max_hp (fst (Enemy_init hl hc g)) =
     py_int (of_int (100 + (hl + fst (randint (- 2) 3 g)) * 12) * (if hc then 15 / 10 else 1)) \<and>
   e_attack (fst (Enemy_init hl hc g)) =
     py_int (of_int (20 + (hl + fst (randint (- 2) 3 g)) * 2) * (if hc then 15 / 10 else 1)) \<and>
   e_defense (fst (Enemy_init hl hc g)) = 10 + (hl + fst (randint (- 2) 3 g)) \<and>
   e_current_hp (fst (Enemy_init hl hc g)) = e_max_hp (fst (Enemy_init hl hc g))"
  by (simp add: Enemy_init_def Let_def split_beta)

lemma Enemy_init_lower:
  assumes "1 \<le> hl"
  shows "18 \<le> e_attack (fst (Enemy_init hl hc g)) \<and> 88 \<le> e_max_hp (fst (Enemy_init hl hc g))"
proof -
  define off where "off = fst (randint (- 2) 3 g)"
  have "- 2 \<le> off" using randint_range [of "- 2" 3 g] by (simp add: off_def)
  with assms have a: "18 \<le> 20 + (hl + off) * 2" and h: "88 \<le> 100 + (hl + off) * 12"
    by simp_all
  from a have "20 + (hl + off) * 2 \<le> py_int (of_int (20 + (hl + off) * 2) * (if hc then 15 / 10 else 1))"
    by (intro py_int_scale) simp
  moreover from h have "100 + (hl + off) * 12 \<le>
      py_int (of_int (100 + (hl + off) * 12) * (if hc then 15 / 10 else 1))"
    by (intro py_int_scale) simp
  ultimately show ?thesis
    using a h Enemy_init_fields [of hl hc g] unfolding off_def [symmetric] by simp
qed

lemma attack_hero_cases:
  "attack_hero e g =
     (if fst (random g) < 15 / 100 then (0, snd (random g))
      else (e_attack e + fst (randint (- 3) 8 (snd (random g))),
            snd (randint (- 3) 8 (snd (random g)))))"
  by (simp add: attack_hero_def Let_def split_beta)

lemma attack_hero_miss_iff:
  assumes "18 \<le> e_attack e"
  shows "((fst (attack_hero e g) = 0) = (fst (random g) < 15 / 100)) \<and>
         (\<not> fst (random g) < 15 / 100 \<longrightarrow> 15 \<le> fst (attack_hero e g))"
proof -
  have "- 3 \<le> fst (randint (- 3) 8 (snd (random g)))"
    using randint_range [of "- 3" 8 "snd (random g)"] by simp
  with assms show ?thesis by (simp add: attack_hero_cases)
qed

subsection \<open>A battle of fifty turns\<close>

lemma slow_enemy_init: "Enemy_init 22 False (5 ## 0 ## 0 ## g) = (slow_enemy, g)"
  by (simp add: Enemy_init_def randint_def generate_name_def choice_def slow_enemy_def
      py_int_numeral Let_def)

lemma slow_attack:
  "attack_enemy example_hero slow_draws = ((25, False), stl (stl slow_draws))"
  by (simp add: attack_enemy_def random_def randint_def example_hero_def slow_draws_def Let_def)

lemma slow_damage:
  "e_take_damage (slow_enemy\<lparr>e_current_hp := hp\<rparr>) 25 = (slow_enemy\<lparr>e_current_hp := hp - 8\<rparr>, 8)"
  by (simp add: e_take_damage_def slow_enemy_def Let_def)

lemma slow_miss: "attack_hero e (stl (stl slow_draws)) = (0, slow_draws)"
  by (simp add: attack_hero_def random_def slow_draws_def Let_def)

lemma slow_battle_loop:
  assumes "hero s = example_hero"
    and "enemy s = slow_enemy\<lparr>e_current_hp := 8 + 8 * int n\<rparr>"
    and "turn_count s = 49 - int n" and "max_turns s = 50"
  shows "hero (fst (battle_loop s slow_draws)) = example_hero \<and>
         enemy (fst (battle_loop s slow_draws)) = slow_enemy\<lparr>e_current_hp := 0\<rparr> \<and>
         turn_count (fst (battle_loop s slow_draws)) = 50 \<and>
         max_turns (fst (battle_loop s slow_draws)) = 50 \<and>
         last (battle_log (fst (battle_loop s slow_draws))) = (50, EnemyDefeated ''Dark Dragon'')"
  using assms
proof (induction n arbitrary: s)
  case 0
  have run: "is_alive (hero s) \<and> e_is_alive (enemy s) \<and> turn_count s < max_turns s"
    using 0 by (simp add: is_alive_def e_is_alive_def example_hero_def)
  have a: "attack_enemy (hero s) slow_draws = ((25, False), stl (stl slow_draws))"
    using 0 by (simp add: slow_attack)
  have t: "e_take_damage (enemy s) 25 = (slow_enemy\<lparr>e_current_hp := 0\<rparr>, 8)"
    using 0 slow_damage [of 8] by simp
  have dead: "\<not> e_is_alive (slow_enemy\<lparr>e_current_hp := 0\<rparr>)"
    by (simp add: e_is_alive_def)
  note lb = loop_body_kill [OF a t dead]
  from battle_loop_break [OF run lb] 0 show ?case
    by (simp add: slow_enemy_def)
next
  case (Suc n)
  have run: "is_alive (hero s) \<and> e_is_alive (enemy s) \<and> turn_count s < max_turns s"
    using Suc.prems by (simp add: is_alive_def e_is_alive_def example_hero_def)
  have a: "attack_enemy (hero s) slow_draws = ((25, False), stl (stl slow_draws))"
    using Suc.prems by (simp add: slow_attack)
  have t: "e_take_damage (enemy s) 25 = (slow_enemy\<lparr>e_current_hp := 8 + 8 * int n\<rparr>, 8)"
    using Suc.prems slow_damage [of "8 + 8 * int (Suc n)"] by simp
  have alive: "e_is_alive (slow_enemy\<lparr>e_current_hp := 8 + 8 * int n\<rparr>)"
    by (simp add: e_is_alive_def)
  have alive_h: "is_alive (hero s)" using run by simp
  note lb = loop_body_miss [OF a t alive slow_miss]
  define s' where "s' = fst (loop_body s slow_draws)"
  from lb alive_h have lb': "loop_body s slow_draws = (s', slow_draws, False)"
    by (simp add: s'_def)
  have f: "hero s' = example_hero" "enemy s' = slow_enemy\<lparr>e_current_hp := 8 + 8 * int n\<rparr>"
    "turn_count s' = 49 - int n" "max_turns s' = 50"
    using Suc.prems by (simp_all add: s'_def lb)
  from Suc.IH [OF f] battle_loop_continue [OF run lb'] show ?case by simp
qed

subsection \<open>Battles between combatants of the same level\<close>

lemma randint_reached: "a \<le> k \<Longrightarrow> k \<le> b \<Longrightarrow> fst (randint a b (nat (k - a) ## g)) = k"
  by (simp add: randint_def)

lemma attack_enemy_lower:
  assumes "5 \<le> attack h"
  shows "attack h - 5 \<le> fst (fst (attack_enemy h g))"
proof -
  define r where "r = fst (randint (- 5) 10 (snd (random g)))"
  have r: "- 5 \<le> r" using randint_range [of "- 5" 10 "snd (random g)"] by (simp add: r_def)
  have "fst (fst (attack_enemy h g)) =
      (if fst (random g) < critical_chance h then py_int (of_int (attack h + r) * 2)
       else attack h + r)"
    by (simp add: attack_enemy_def Let_def split_beta r_def)
  moreover have "py_int (of_int (attack h + r) * 2) = (attack h + r) * 2"
    using py_int_of_int [of "(attack h + r) * 2"] by simp
  ultimately show ?thesis using r assms by simp
qed

lemma loop_body_drop:
  assumes "loop_body s g = (s', g', broke)" and "5 \<le> attack (hero s)"
  shows "e_current_hp (enemy s')
           \<le> e_current_hp (enemy s) - (attack (hero s) - 5 - e_defense (enemy s) div 2) \<and>
         attack (hero s') = attack (hero s) \<and> e_defense (enemy s') = e_defense (enemy s)"
proof -
  obtain d c g1 where a: "attack_enemy (hero s) g = ((d, c), g1)"
    by (cases "attack_enemy (hero s) g") auto
  obtain e1 ad where t: "e_take_damage (enemy s) d = (e1, ad)"
    by (cases "e_take_damage (enemy s) d") auto
  from attack_enemy_lower [OF assms(2), of g] a have d: "attack (hero s) - 5 \<le> d" by simp
  from t have e1: "e_current_hp e1 = e_current_hp (enemy s) - max (d - e_defense (enemy s) div 2) 1"
    "e_defense e1 = e_defense (enemy s)"
    by (auto simp: e_take_damage_def Let_def)
  with d have drop: "e_current_hp e1
      \<le> e_current_hp (enemy s) - (attack (hero s) - 5 - e_defense (enemy s) div 2)"
    by simp
  from assms(1) have s': "s' = fst (loop_body s g)" by simp
  show ?thesis
  proof (cases "e_is_alive e1")
    case False
    show ?thesis using drop e1 by (simp add: s' loop_body_kill [OF a t False])
  next
    case True
    obtain ed g2 where h: "attack_hero e1 g1 = (ed, g2)"
      by (cases "attack_hero e1 g1") auto
    show ?thesis
    proof (cases "ed = 0")
      case True
      with h have h0: "attack_hero e1 g1 = (0, g2)" by simp
      show ?thesis using drop e1
        by (simp add: s' loop_body_miss [OF a t \<open>e_is_alive e1\<close> h0])
    next
      case False
      obtain h1 ah where td: "take_damage (hero s) ed = (h1, ah)"
        by (cases "take_damage (hero s) ed") auto
      show ?thesis using drop e1 take_damage_fields [OF td]
        by (simp add: s' loop_body_hit [OF a t \<open>e_is_alive e1\<close> h False td])
    qed
  qed
qed

lemma battle_loop_count:
  assumes "5 \<le> attack (hero s)"
    and "0 < attack (hero s) - 5 - e_defense (enemy s) div 2"
    and "e_current_hp (enemy s) \<le> int n * (attack (hero s) - 5 - e_defense (enemy s) div 2)"
  shows "turn_count (fst (battle_loop s g)) \<le> turn_count s + int n"
  using assms
proof (induction s g arbitrary: n rule: battle_loop.induct)
  case (1 s g)
  define D where "D = attack (hero s) - 5 - e_defense (enemy s) div 2"
  show ?case
  proof (cases "is_alive (hero s) \<and> e_is_alive (enemy s) \<and> turn_count s < max_turns s")
    case False
    show ?thesis by (simp add: battle_loop_stop [OF False])
  next
    case True
    then have pos: "0 < e_current_hp (enemy s)" by (simp add: e_is_alive_def)
    from "1.prems"(2,3) pos have "n \<noteq> 0"
      by (cases n) auto
    then obtain m where n: "n = Suc m" by (cases n) auto
    obtain s' g' broke where lb: "loop_body s g = (s', g', broke)"
      by (cases "loop_body s g") auto
    note st = loop_body_step [OF lb]
    note dr = loop_body_drop [OF lb "1.prems"(1)]
    show ?thesis
    proof (cases broke)
      case True
      with lb have "loop_body s g = (s', g', True)" by simp
      from battle_loop_break [OF \<open>is_alive (hero s) \<and> e_is_alive (enemy s) \<and> turn_count s < max_turns s\<close> this]
        st n
      show ?thesis by simp
    next
      case False
      with lb have lb': "loop_body s g = (s', g', False)" by simp
      note eq = battle_loop_continue [OF True lb']
      have 1: "5 \<le> attack (hero s')" using dr "1.prems"(1) by simp
      have 2: "0 < attack (hero s') - 5 - e_defense (enemy s') div 2"
        using dr "1.prems"(2) by simp
      have "e_current_hp (enemy s') \<le> int n * D - D"
        using dr "1.prems"(3) by (simp add: D_def)
      also have "int n * D - D = int m * D" by (simp add: n algebra_simps)
      finally have 3: "e_current_hp (enemy s')
          \<le> int m * (attack (hero s') - 5 - e_defense (enemy s') div 2)"
        using dr by (simp add: D_def)
      have "(s', (g', broke)) = loop_body s g" using lb by simp
      from "1.IH" [OF True this refl False 1 2 3] st n show ?thesis
        by (simp add: eq)
    qed
  qed
qed


lemma py_int_scale_upper:
  assumes "0 \<le> k"
  shows "2 * py_int (of_int k * (if hc then 15 / 10 else 1)) \<le> 3 * k"
proof (cases hc)
  case False
  with assms show ?thesis by (simp add: py_int_of_int)
next
  case True
  from assms have nn: "(0::rat) \<le> of_int k * (15 / 10)" by simp
  have "of_int \<lfloor>(of_int k :: rat) * (15 / 10)\<rfloor> \<le> (of_int k :: rat) * (15 / 10)"
    by (rule of_int_floor_le)
  then have "(of_int (2 * \<lfloor>(of_int k :: rat) * (15 / 10)\<rfloor>) :: rat) \<le> of_int (3 * k)"
    by simp
  then have "2 * \<lfloor>(of_int k :: rat) * (15 / 10)\<rfloor> \<le> 3 * k"
    by (simp only: of_int_le_iff)
  with True nn show ?thesis by (simp add: py_int_nonneg)
qed

lemma Hero_init_attack:
  assumes "cls \<in> set VALID_CLASSES" and "Hero_init nm cls lvl hc = Inr h"
  shows "25 + lvl * 2 \<le> attack h"
proof -
  from Hero_init_Inr [OF assms(2)] have r: "\<bar>lvl\<bar> < int_float_limit" ..
  from assms(1) consider "cls = ''Warrior''" | "cls = ''Mage''" | "cls = ''Rogue''"
    by (auto simp: VALID_CLASSES_def)
  then show ?thesis
  proof cases
    case 1 with assms(2) show ?thesis by (auto simp: Hero_init_Warrior [OF r])
  next
    case 2 with assms(2) show ?thesis by (auto simp: Hero_init_Mage [OF r])
  next
    case 3 with assms(2) show ?thesis by (auto simp: Hero_init_Rogue [OF r])
  qed
qed

text \<open>
  When both combatants are built from the same level, as \<^verbatim>\<open>main\<close> does, the hero's weakest
  hit takes at least a fifteenth of the enemy's health: the battle is over by turn 15.
\<close>

lemma same_level_battle_short:
  assumes "cls \<in> set VALID_CLASSES" and "1 \<le> lvl" and "lvl \<le> 100"
    and "Hero_init nm cls lvl hc = Inr h"
  shows "turn_count (fst (snd (simulate_battle
           (BattleSimulator_init h (fst (Enemy_init lvl hc g))) g'))) \<le> 15"
proof -
  define e where "e = fst (Enemy_init lvl hc g)"
  define off where "off = fst (randint (- 2) 3 g)"
  define q where "q = (10 + (lvl + off)) div 2"
  have off: "- 2 \<le> off" "off \<le> 3"
    using randint_range [of "- 2" 3 g] by (simp_all add: off_def)
  have q: "2 * q \<le> 10 + (lvl + off)" by (simp add: q_def)
  note ef = Enemy_init_fields [of lvl hc g, folded e_def off_def]
  from off assms(2) have "0 \<le> 100 + (lvl + off) * 12" by simp
  from py_int_scale_upper [OF this, of hc] ef
  have hp: "2 * e_current_hp e \<le> 3 * (100 + (lvl + off) * 12)" by simp
  from ef have df: "e_defense e div 2 = q" by (simp add: q_def)
  note atk = Hero_init_attack [OF assms(1,4)]
  define s where "s = BattleSimulator_init h e"
  from simulate_battle_final [of s g'] obtain s0 m where
    f: "hero s0 = hero s" "enemy s0 = enemy s" "turn_count s0 = turn_count s"
       "max_turns s0 = max_turns s"
    and r: "fst (snd (simulate_battle s g')) = log_event (fst (battle_loop s0 g')) m"
    by blast
  have s0: "hero s0 = h" "enemy s0 = e" "turn_count s0 = 0"
    using f by (simp_all add: s_def BattleSimulator_init_def)
  have 1: "5 \<le> attack (hero s0)" using atk assms(2) s0 by simp
  have 2: "0 < attack (hero s0) - 5 - e_defense (enemy s0) div 2"
    using atk assms(2) off q df s0 by simp
  have 3: "e_current_hp (enemy s0)
      \<le> int 15 * (attack (hero s0) - 5 - e_defense (enemy s0) div 2)"
    using atk assms(2) off q df hp s0 by simp
  from battle_loop_count [OF 1 2 3, of g'] s0 r show ?thesis
    unfolding s_def e_def by (simp add: log_event_fields)
qed

section \<open>Damage application\<close>

text \<open>
  Claim C4. For every raw damage and every defender, hero or enemy, \<^verbatim>\<open>take_damage\<close> subtracts
  exactly \<open>max (raw - defense div 2) 1\<close> from the current health, returns that amount and
  changes nothing else than the current health; the amount is at least 1.
\<close>

theorem take_damage_exact:
  "take_damage h d = (h\<lparr>current_hp := current_hp h - max (d - defense h div 2) 1\<rparr>,
                      max (d - defense h div 2) 1)
   \<and> e_take_damage e d = (e\<lparr>e_current_hp := e_current_hp e - max (d - e_defense e div 2) 1\<rparr>,
                      max (d - e_defense e div 2) 1)
   \<and> 1 \<le> snd (take_damage h d) \<and> 1 \<le> snd (e_take_damage e d)
   \<and> current_hp (fst (take_damage h d)) = current_hp h - snd (take_damage h d)
   \<and> e_current_hp (fst (e_take_damage e d)) = e_current_hp e - snd (e_take_damage e d)"
  by (simp add: take_damage_def e_take_damage_def Let_def)


text \<open>The instance of C4 for a level-1 Warrior hit for 5: the floor of 1 applies.\<close>

theorem take_damage_exact_witness:
  "snd (take_damage \<lparr>name = ''Aria'', hero_class = ''Warrior'', level = 1, hardcore_mode = False,
          max_hp = 160, current_hp = 160, attack = 27, defense = 21,
          critical_chance = 152 / 1000\<rparr> 5) = 1 \<and>
   current_hp (fst (take_damage \<lparr>name = ''Aria'', hero_class = ''Warrior'', level = 1,
          hardcore_mode = False, max_hp = 160, current_hp = 160, attack = 27, defense = 21,
          critical_chance = 152 / 1000\<rparr> 5)) = 159"
  using take_damage_exact [of "\<lparr>name = ''Aria'', hero_class = ''Warrior'', level = 1,
          hardcore_mode = False, max_hp = 160, current_hp = 160, attack = 27, defense = 21,
          critical_chance = 152 / 1000\<rparr>" 5]
  by simp

section \<open>Hero derivation\<close>

text \<open>
  Claim C2. For every class with a row in the table of the specification (Warrior, Mage,
  Rogue) and every level from 1 to 100, the constructor succeeds and the hero has
  maxHealth = baseHP + level * 10, attack = baseAttack + level * 2,
  defense = baseDefense + level * 1 and criticalChance = min (baseCrit + level * 0.002) 0.75,
  with the current health starting at maxHealth.
\<close>

theorem hero_derivation:
  assumes "map_of spec_table cls = Some (bhp, batk, bdef, bcrit)"
    and "1 \<le> lvl" and "lvl \<le> 100"
  shows "cls \<in> set VALID_CLASSES \<and>
         Hero_init nm cls lvl hc =
           Inr \<lparr>name = nm, hero_class = cls, level = lvl, hardcore_mode = hc,
                max_hp = bhp + lvl * 10, current_hp = bhp + lvl * 10,
                attack = batk + lvl * 2, defense = bdef + lvl * 1,
                critical_chance = min (bcrit + of_int lvl * (2 / 1000)) (75 / 100)\<rparr>"
proof -
  from assms(2,3) have r: "\<bar>lvl\<bar> < int_float_limit" by (intro level_converts) simp_all
  from spec_table_rows [OF assms(1)]
  consider (W) "cls = ''Warrior''" "bhp = 150" "batk = 25" "bdef = 20" "bcrit = 15 / 100"
    | (M) "cls = ''Mage''" "bhp = 100" "batk = 35" "bdef = 10" "bcrit = 25 / 100"
    | (R) "cls = ''Rogue''" "bhp = 120" "batk = 30" "bdef = 15" "bcrit = 35 / 100"
    by blast
  then show ?thesis
  proof cases
    case W
    show ?thesis unfolding W by (simp only: Hero_init_Warrior [OF r]) (simp add: VALID_CLASSES_def)
  next
    case M
    show ?thesis unfolding M by (simp only: Hero_init_Mage [OF r]) (simp add: VALID_CLASSES_def)
  next
    case R
    show ?thesis unfolding R by (simp only: Hero_init_Rogue [OF r]) (simp add: VALID_CLASSES_def)
  qed
qed

text \<open>The level-1 Warrior without hardcore mode: 160, 27, 21 and 0.152.\<close>

theorem hero_derivation_witness:
  "map_of spec_table ''Warrior'' = Some (150, 25, 20, 15 / 100) \<and> (1::int) \<le> 1 \<and> (1::int) \<le> 100 \<and>
   Hero_init ''Aria'' ''Warrior'' 1 False =
     Inr \<lparr>name = ''Aria'', hero_class = ''Warrior'', level = 1, hardcore_mode = False,
          max_hp = 160, current_hp = 160, attack = 27, defense = 21,
          critical_chance = 152 / 1000\<rparr>"
proof -
  have row: "map_of spec_table ''Warrior'' = Some (150, 25, 20, 15 / 100)"
    by (simp add: spec_table_def)
  from hero_derivation [OF row, of 1 "''Aria''" False] row show ?thesis
    by simp
qed

text \<open>
  Claim C9. For every name, valid class and level from 1 to 100, the heroes built with and
  without the hardcore flag have the same maxHealth, attack, defense and criticalChance:
  they differ in the stored flag only.
\<close>

theorem hero_stats_ignore_hardcore:
  assumes "cls \<in> set VALID_CLASSES" and "1 \<le> lvl" and "lvl \<le> 100"
  shows "\<exists>h h'. Hero_init nm cls lvl False = Inr h \<and> Hero_init nm cls lvl True = Inr h' \<and>
           max_hp h' = max_hp h \<and> attack h' = attack h \<and> defense h' = defense h \<and>
           critical_chance h' = critical_chance h \<and> current_hp h' = current_hp h \<and>
           h' = h\<lparr>hardcore_mode := True\<rparr>"
proof -
  from assms(2,3) have "\<bar>lvl\<bar> < int_float_limit" by (intro level_converts) simp_all
  from Hero_init_valid_flag [OF assms(1) this, of nm]
  obtain h where "Hero_init nm cls lvl False = Inr h"
    and "Hero_init nm cls lvl True = Inr (h\<lparr>hardcore_mode := True\<rparr>)"
    by blast
  then show ?thesis by simp
qed

text \<open>The level-50 Mage of the specification's scenario.\<close>

theorem hero_stats_ignore_hardcore_witness:
  "''Mage'' \<in> set VALID_CLASSES \<and> (1::int) \<le> 50 \<and> (50::int) \<le> 100 \<and>
   (\<exists>h h'. Hero_init ''Aria'' ''Mage'' 50 False = Inr h \<and>
       Hero_init ''Aria'' ''Mage'' 50 True = Inr h' \<and>
       max_hp h' = max_hp h \<and> attack h' = attack h \<and> defense h' = defense h \<and>
       critical_chance h' = critical_chance h \<and> max_hp h = 600 \<and> attack h = 135)"
proof -
  have v: "''Mage'' \<in> set VALID_CLASSES" by (simp add: VALID_CLASSES_def)
  have "\<bar>50 :: int\<bar> < int_float_limit" by (rule level_converts) simp_all
  note m = Hero_init_Mage [OF this]
  from hero_stats_ignore_hardcore [OF v, of 50 "''Aria''"] v show ?thesis
    by (simp add: m)
qed

section \<open>Enemy derivation\<close>

text \<open>
  Claim C3. For every hero level from 1 to 100 and every offset drawn from -2 to 3, the enemy
  has level heroLevel + offset (no floor is applied), maxHealth = floor ((100 + level * 12) * m)
  and attack = floor ((20 + level * 2) * m) with m = 1.5 in hardcore mode and 1 otherwise,
  and defense = 10 + level, to which the multiplier is not applied.
\<close>

theorem enemy_derivation:
  assumes "1 \<le> hl" and "hl \<le> 100" and "- 2 \<le> off" and "off \<le> 3"
    and "fst (randint (- 2) 3 g) = off"
  shows "e_level (fst (Enemy_init hl hc g)) = hl + off \<and>
         e_max_hp (fst (Enemy_init hl hc g)) =
           \<lfloor>of_int (100 + (hl + off) * 12) * (if hc then 15 / 10 else 1 :: rat)\<rfloor> \<and>
         e_attack (fst (Enemy_init hl hc g)) =
           \<lfloor>of_int (20 + (hl + off) * 2) * (if hc then 15 / 10 else 1 :: rat)\<rfloor> \<and>
         e_defense (fst (Enemy_init hl hc g)) = 10 + (hl + off) \<and>
         e_current_hp (fst (Enemy_init hl hc g)) = e_max_hp (fst (Enemy_init hl hc g))"
proof -
  have "(0::rat) \<le> of_int (100 + (hl + off) * 12) * (if hc then 15 / 10 else 1)"
    and "(0::rat) \<le> of_int (20 + (hl + off) * 2) * (if hc then 15 / 10 else 1)"
    using assms(1,3) by simp_all
  then have "py_int (of_int (100 + (hl + off) * 12) * (if hc then 15 / 10 else 1)) =
      \<lfloor>of_int (100 + (hl + off) * 12) * (if hc then 15 / 10 else 1 :: rat)\<rfloor>"
    and "py_int (of_int (20 + (hl + off) * 2) * (if hc then 15 / 10 else 1)) =
      \<lfloor>of_int (20 + (hl + off) * 2) * (if hc then 15 / 10 else 1 :: rat)\<rfloor>"
    by (simp_all only: py_int_nonneg)
  moreover have "Enemy_init hl hc g =
     (\<lparr>e_level = hl + off, e_hardcore_mode = hc, e_name = fst (generate_name (stl g)),
       e_max_hp = py_int (of_int (100 + (hl + off) * 12) * (if hc then 15 / 10 else 1)),
       e_current_hp = py_int (of_int (100 + (hl + off) * 12) * (if hc then 15 / 10 else 1)),
       e_attack = py_int (of_int (20 + (hl + off) * 2) * (if hc then 15 / 10 else 1)),
       e_defense = 10 + (hl + off)\<rparr>, snd (generate_name (stl g)))"
    using assms(5) by (simp add: Enemy_init_def randint_def Let_def split_beta)
  ultimately show ?thesis by simp
qed

text \<open>Hero level 1 with the offset -2 in hardcore mode: the enemy has level -1.\<close>

theorem enemy_derivation_witness:
  "(1::int) \<le> 1 \<and> (1::int) \<le> 100 \<and> (- 2::int) \<le> - 2 \<and> (- 2::int) \<le> 3 \<and>
   fst (randint (- 2) 3 (sconst 0)) = - 2 \<and>
   e_level (fst (Enemy_init 1 True (sconst 0))) = - 1 \<and>
   e_max_hp (fst (Enemy_init 1 True (sconst 0))) = 132 \<and>
   e_attack (fst (Enemy_init 1 True (sconst 0))) = 27 \<and>
   e_defense (fst (Enemy_init 1 True (sconst 0))) = 9"
proof -
  have d: "fst (randint (- 2) 3 (sconst 0)) = - 2" by (simp add: randint_def)
  from enemy_derivation [of 1 "- 2" "sconst 0" True, OF _ _ _ _ d] d show ?thesis
    by simp
qed


section \<open>The battle loop\<close>

text \<open>
  Claim C5. For every generator state and every valid construction input (a class of the
  enumerated set, a level from 1 to 100, either mode), the hero and the enemy are constructed,
  \<^verbatim>\<open>simulate_battle\<close> returns, and the turn counter it leaves is between 0 and 50, the
  configured ceiling. The loop is a total function: its termination is proved with the
  measure \<open>max_turns - turn_count\<close>.
\<close>

theorem simulate_battle_bounded:
  assumes "cls \<in> set VALID_CLASSES" and "1 \<le> lvl" and "lvl \<le> 100"
  shows "\<exists>h e g1 victory s' g'.
           Hero_init nm cls lvl hc = Inr h \<and> Enemy_init lvl hc g = (e, g1) \<and>
           simulate_battle (BattleSimulator_init h e) g1 = (victory, s', g') \<and>
           0 \<le> turn_count s' \<and> turn_count s' \<le> 50 \<and> max_turns s' = 50"
proof -
  from assms(2,3) have "\<bar>lvl\<bar> < int_float_limit" by (intro level_converts) simp_all
  from Hero_init_succeeds [OF assms(1) this, of nm hc]
  obtain h where h: "Hero_init nm cls lvl hc = Inr h" by blast
  obtain e g1 where e: "Enemy_init lvl hc g = (e, g1)"
    by (cases "Enemy_init lvl hc g") auto
  define s where "s = BattleSimulator_init h e"
  have s: "turn_count s = 0" "max_turns s = 50"
    by (simp_all add: s_def BattleSimulator_init_def)
  obtain victory s' g' where r: "simulate_battle s g1 = (victory, s', g')"
    by (cases "simulate_battle s g1") auto
  from s have "turn_count s \<le> max_turns s" by simp
  from simulate_battle_turns [OF this, of g1] simulate_battle_hp [of s g1] r s
  have "0 \<le> turn_count s' \<and> turn_count s' \<le> 50 \<and> max_turns s' = 50" by simp
  with h e r show ?thesis unfolding s_def by blast
qed

theorem simulate_battle_bounded_witness:
  "''Warrior'' \<in> set VALID_CLASSES \<and> (1::int) \<le> 1 \<and> (1::int) \<le> 100 \<and>
   (\<exists>h e g1 victory s' g'.
      Hero_init ''Aria'' ''Warrior'' 1 False = Inr h \<and>
      Enemy_init 1 False (sconst 0) = (e, g1) \<and>
      simulate_battle (BattleSimulator_init h e) g1 = (victory, s', g') \<and>
      0 \<le> turn_count s' \<and> turn_count s' \<le> 50 \<and> max_turns s' = 50)"
  using simulate_battle_bounded [of "''Warrior''" 1 "''Aria''" False "sconst 0"]
  by (simp add: VALID_CLASSES_def)


text \<open>
  Claim C6. In every pass of the loop the hero's attack is resolved first: the enemy carries
  the hero's damage and the first two lines logged for the turn are the hero's. If that hit
  leaves the enemy at 0 health or less, the pass ends the loop at once, the hero is untouched,
  the generator is consulted no further and the only other line of the turn announces the
  defeat: no enemy action is resolved or logged. Otherwise the enemy's attack draws from the
  generator the hero's attack left behind, and its line comes third.
\<close>

theorem hero_acts_first:
  assumes "attack_enemy (hero s) g = ((d, c), g1)"
    and "e_take_damage (enemy s) d = (e1, ad)"
    and "loop_body s g = (s', g', broke)"
  shows "enemy s' = e1 \<and>
         take 2 (drop (length (battle_log s)) (battle_log s')) =
           [(turn_count s + 1, HeroAttacks (name (hero s)) d ad c),
            (turn_count s + 1, EnemyHP (max 0 (e_current_hp e1)) (e_max_hp e1))] \<and>
         (e_current_hp e1 \<le> 0 \<longrightarrow>
            broke \<and> hero s' = hero s \<and> g' = g1 \<and>
            battle_log s' = battle_log s @
              [(turn_count s + 1, HeroAttacks (name (hero s)) d ad c),
               (turn_count s + 1, EnemyHP (max 0 (e_current_hp e1)) (e_max_hp e1)),
               (turn_count s + 1, EnemyDefeated (e_name e1))]) \<and>
         (0 < e_current_hp e1 \<longrightarrow>
            g' = snd (attack_hero e1 g1) \<and>
            battle_log s' ! (length (battle_log s) + 2) =
              (turn_count s + 1,
               if fst (attack_hero e1 g1) = 0 then EnemyMisses (e_name e1)
               else EnemyAttacks (e_name e1) (fst (attack_hero e1 g1))
                      (snd (take_damage (hero s) (fst (attack_hero e1 g1))))))"
proof (cases "e_is_alive e1")
  case False
  from loop_body_kill [OF assms(1,2) False] assms(3) False show ?thesis
    by (auto simp: e_is_alive_def)
next
  case True
  obtain ed g2 where h: "attack_hero e1 g1 = (ed, g2)"
    by (cases "attack_hero e1 g1") auto
  show ?thesis
  proof (cases "ed = 0")
    case True
    with h have h0: "attack_hero e1 g1 = (0, g2)" by simp
    from loop_body_miss [OF assms(1,2) \<open>e_is_alive e1\<close> h0] assms(3) \<open>e_is_alive e1\<close> h0
    show ?thesis by (auto simp: e_is_alive_def nth_append)
  next
    case False
    obtain h1 ah where td: "take_damage (hero s) ed = (h1, ah)"
      by (cases "take_damage (hero s) ed") auto
    from loop_body_hit [OF assms(1,2) \<open>e_is_alive e1\<close> h False td] assms(3) \<open>e_is_alive e1\<close> h
      False td
    show ?thesis by (auto simp: e_is_alive_def nth_append)
  qed
qed

text \<open>
  The scenario of the specification: the enemy's health forced to 1, the hero's hit deals 40.
\<close>

theorem hero_acts_first_witness:
  "attack_enemy (hero (BattleSimulator_init example_hero (example_enemy\<lparr>e_current_hp := 1\<rparr>)))
     (sconst 0) = ((44, True), sconst 0) \<and>
   e_take_damage (enemy (BattleSimulator_init example_hero (example_enemy\<lparr>e_current_hp := 1\<rparr>))) 44 =
     (example_enemy\<lparr>e_current_hp := - 39\<rparr>, 40) \<and>
   loop_body (BattleSimulator_init example_hero (example_enemy\<lparr>e_current_hp := 1\<rparr>)) (sconst 0) =
     (\<lparr>hero = example_hero, enemy = example_enemy\<lparr>e_current_hp := - 39\<rparr>,
       battle_log = [(1, HeroAttacks ''Aria'' 44 40 True), (1, EnemyHP 0 88),
                     (1, EnemyDefeated ''Dark Dragon'')],
       turn_count = 1, max_turns = 50\<rparr>, sconst 0, True)"
proof -
  define s where "s = BattleSimulator_init example_hero (example_enemy\<lparr>e_current_hp := 1\<rparr>)"
  have f: "hero s = example_hero" "enemy s = example_enemy\<lparr>e_current_hp := 1\<rparr>"
    "battle_log s = []" "turn_count s = 0" "max_turns s = 50"
    by (simp_all add: s_def BattleSimulator_init_def)
  have a: "attack_enemy (hero s) (sconst 0) = ((44, True), sconst 0)"
    by (simp add: f example_attack)
  have t: "e_take_damage (enemy s) 44 = (example_enemy\<lparr>e_current_hp := - 39\<rparr>, 40)"
    using example_damage [of 1] by (simp add: f)
  obtain s' g' broke where lb: "loop_body s (sconst 0) = (s', g', broke)"
    by (cases "loop_body s (sconst 0)") auto
  from hero_acts_first [OF a t lb]
  have "enemy s' = example_enemy\<lparr>e_current_hp := - 39\<rparr>" "broke" "hero s' = example_hero"
    "g' = sconst 0"
    "battle_log s' = [(1, HeroAttacks ''Aria'' 44 40 True), (1, EnemyHP 0 88),
                     (1, EnemyDefeated ''Dark Dragon'')]"
    by (simp_all add: f example_enemy_def example_hero_def)
  moreover from loop_body_step [OF lb] have "turn_count s' = 1" "max_turns s' = 50"
    by (simp_all add: f)
  ultimately have "s' = \<lparr>hero = example_hero, enemy = example_enemy\<lparr>e_current_hp := - 39\<rparr>,
       battle_log = [(1, HeroAttacks ''Aria'' 44 40 True), (1, EnemyHP 0 88),
                     (1, EnemyDefeated ''Dark Dragon'')],
       turn_count = 1, max_turns = 50\<rparr>" "g' = sconst 0" "broke"
    by simp_all
  with lb a t show ?thesis unfolding s_def by simp
qed

section \<open>Health\<close>

text \<open>
  Claim C7. Each combatant starts at its maximum health, \<^verbatim>\<open>take_damage\<close> strictly lowers the
  current health and leaves the maximum alone, and so do one pass of the loop and a whole
  \<^verbatim>\<open>simulate_battle\<close>, from any state: the current health never increases, and
  \<open>current \<le> max\<close> is kept by every operation. Nothing clamps the stored health, which can
  therefore be negative; only the logged value is \<open>max 0 current\<close>.
\<close>

theorem health_never_increases:
  "current_hp (fst (take_damage h d)) < current_hp h \<and>
   max_hp (fst (take_damage h d)) = max_hp h \<and>
   e_current_hp (fst (e_take_damage e d)) < e_current_hp e \<and>
   e_max_hp (fst (e_take_damage e d)) = e_max_hp e \<and>
   current_hp (hero (fst (loop_body s g))) \<le> current_hp (hero s) \<and>
   e_current_hp (enemy (fst (loop_body s g))) \<le> e_current_hp (enemy s) \<and>
   max_hp (hero (fst (loop_body s g))) = max_hp (hero s) \<and>
   e_max_hp (enemy (fst (loop_body s g))) = e_max_hp (enemy s) \<and>
   current_hp (hero (fst (snd (simulate_battle s g)))) \<le> current_hp (hero s) \<and>
   e_current_hp (enemy (fst (snd (simulate_battle s g)))) \<le> e_current_hp (enemy s) \<and>
   max_hp (hero (fst (snd (simulate_battle s g)))) = max_hp (hero s) \<and>
   e_max_hp (enemy (fst (snd (simulate_battle s g)))) = e_max_hp (enemy s) \<and>
   (Hero_init nm cls lvl hc = Inr h' \<longrightarrow> current_hp h' = max_hp h') \<and>
   e_current_hp (fst (Enemy_init hl hc g0)) = e_max_hp (fst (Enemy_init hl hc g0)) \<and>
   (current_hp (hero s) \<le> max_hp (hero s) \<longrightarrow>
      current_hp (hero (fst (loop_body s g))) \<le> max_hp (hero (fst (loop_body s g))) \<and>
      current_hp (hero (fst (snd (simulate_battle s g))))
        \<le> max_hp (hero (fst (snd (simulate_battle s g))))) \<and>
   (e_current_hp (enemy s) \<le> e_max_hp (enemy s) \<longrightarrow>
      e_current_hp (enemy (fst (loop_body s g))) \<le> e_max_hp (enemy (fst (loop_body s g))) \<and>
      e_current_hp (enemy (fst (snd (simulate_battle s g))))
        \<le> e_max_hp (enemy (fst (snd (simulate_battle s g)))))"
proof -
  have td: "current_hp (fst (take_damage h d)) < current_hp h \<and>
      max_hp (fst (take_damage h d)) = max_hp h"
    using take_damage_fields [of h d "fst (take_damage h d)" "snd (take_damage h d)"] by simp
  have etd: "e_current_hp (fst (e_take_damage e d)) < e_current_hp e \<and>
      e_max_hp (fst (e_take_damage e d)) = e_max_hp e"
    using e_take_damage_fields [of e d "fst (e_take_damage e d)" "snd (e_take_damage e d)"]
    by simp
  have lb: "current_hp (hero (fst (loop_body s g))) \<le> current_hp (hero s) \<and>
      e_current_hp (enemy (fst (loop_body s g))) \<le> e_current_hp (enemy s) \<and>
      max_hp (hero (fst (loop_body s g))) = max_hp (hero s) \<and>
      e_max_hp (enemy (fst (loop_body s g))) = e_max_hp (enemy s)"
    using loop_body_step [of s g "fst (loop_body s g)" "fst (snd (loop_body s g))"
        "snd (snd (loop_body s g))"]
    by simp
  note sb = simulate_battle_hp [of s g]
  have hi: "Hero_init nm cls lvl hc = Inr h' \<longrightarrow> current_hp h' = max_hp h'"
  proof
    assume c: "Hero_init nm cls lvl hc = Inr h'"
    from Hero_init_Inr [OF c] have "cls \<in> set VALID_CLASSES" and "\<bar>lvl\<bar> < int_float_limit"
      by simp_all
    from Hero_init_succeeds [OF this, of nm hc] c show "current_hp h' = max_hp h'" by auto
  qed
  have ei: "e_current_hp (fst (Enemy_init hl hc g0)) = e_max_hp (fst (Enemy_init hl hc g0))"
    by (simp add: Enemy_init_def Let_def split_beta)
  from td etd lb sb hi ei show ?thesis by simp
qed

text \<open>
  An enemy at 1 health hit for 40 is left at -39, while the log line of the turn shows 0.
\<close>

theorem health_never_increases_witness:
  "e_current_hp (fst (e_take_damage (example_enemy\<lparr>e_current_hp := 1\<rparr>) 44)) = - 39 \<and>
   current_hp (fst (take_damage example_hero 44)) = 126 \<and>
   Hero_init ''Aria'' ''Warrior'' 1 False = Inr example_hero \<and>
   current_hp example_hero = max_hp example_hero \<and>
   e_current_hp (enemy (fst (loop_body
      (BattleSimulator_init example_hero (example_enemy\<lparr>e_current_hp := 1\<rparr>)) (sconst 0)))) = - 39 \<and>
   current_hp (hero (fst (snd (simulate_battle
      (BattleSimulator_init example_hero (example_enemy\<lparr>e_current_hp := 1\<rparr>)) (sconst 0))))) \<le> 160 \<and>
   e_current_hp (enemy (fst (snd (simulate_battle
      (BattleSimulator_init example_hero (example_enemy\<lparr>e_current_hp := 1\<rparr>)) (sconst 0))))) \<le> 1"
proof -
  define s where "s = BattleSimulator_init example_hero (example_enemy\<lparr>e_current_hp := 1\<rparr>)"
  have f: "hero s = example_hero" "enemy s = example_enemy\<lparr>e_current_hp := 1\<rparr>"
    "battle_log s = []" "turn_count s = 0" "max_turns s = 50"
    by (simp_all add: s_def BattleSimulator_init_def)
  have a: "attack_enemy (hero s) (sconst 0) = ((44, True), sconst 0)"
    by (simp add: f example_attack)
  have t: "e_take_damage (enemy s) 44 = (example_enemy\<lparr>e_current_hp := - 39\<rparr>, 40)"
    using example_damage [of 1] by (simp add: f)
  have dead: "\<not> e_is_alive (example_enemy\<lparr>e_current_hp := - 39\<rparr>)"
    by (simp add: e_is_alive_def)
  have lb: "enemy (fst (loop_body s (sconst 0))) = example_enemy\<lparr>e_current_hp := - 39\<rparr>"
    by (simp add: loop_body_kill [OF a t dead])
  have hd: "current_hp (fst (take_damage example_hero 44)) = 126"
    by (simp add: take_damage_def example_hero_def Let_def)
  from health_never_increases [where h = example_hero and d = 44
      and e = "example_enemy\<lparr>e_current_hp := 1\<rparr>" and s = s and g = "sconst 0"
      and nm = "''Aria''" and cls = "''Warrior''" and lvl = 1 and hc = False
      and h' = example_hero and hl = 1 and ?g0.0 = "sconst 0"]
    example_hero_init t lb hd f
  show ?thesis unfolding s_def [symmetric]
    by (simp add: example_hero_def example_enemy_def)
qed

section \<open>Misses\<close>

text \<open>
  Claim C10. For every hero level from 1 to 100, every offset draw and both modes, the enemy
  built by \<^verbatim>\<open>Enemy.__init__\<close> has attack at least 18 and maxHealth at least 88; so an attack
  of that enemy that does not miss is at least 15, and \<^verbatim>\<open>attack_hero\<close> returns 0 exactly when
  the draw is below 0.15. In a pass of the loop in which such an enemy survives the hero's
  hit, the hero is unchanged, and the miss is logged, exactly when that draw is below 0.15.
\<close>

theorem enemy_miss_exact:
  assumes "1 \<le> hl" and "hl \<le> 100"
    and "e = fst (Enemy_init hl hc g0)"
    and "e_attack (enemy s) = e_attack e"
    and "attack_enemy (hero s) g = ((d, c), g1)"
    and "e_take_damage (enemy s) d = (e1, ad)"
    and "e_is_alive e1"
    and "loop_body s g = (s', g', broke)"
  shows "18 \<le> e_attack e \<and> 88 \<le> e_max_hp e \<and>
     (\<not> fst (random g2) < 15 / 100 \<longrightarrow> 15 \<le> fst (attack_hero e g2)) \<and>
     ((fst (attack_hero e g2) = 0) = (fst (random g2) < 15 / 100)) \<and>
     ((fst (attack_hero e1 g1) = 0) = (fst (random g1) < 15 / 100)) \<and>
     ((hero s' = hero s) = (fst (random g1) < 15 / 100)) \<and>
     ((current_hp (hero s') = current_hp (hero s)) = (fst (random g1) < 15 / 100)) \<and>
     ((battle_log s' ! (length (battle_log s) + 2) = (turn_count s + 1, EnemyMisses (e_name e1)))
        = (fst (random g1) < 15 / 100))"
proof -
  from Enemy_init_lower [OF assms(1), of hc g0] assms(3)
  have low: "18 \<le> e_attack e" "88 \<le> e_max_hp e" by simp_all
  note m = attack_hero_miss_iff [OF low(1), of g2]
  from e_take_damage_fields [OF assms(6)] assms(4) low
  have "18 \<le> e_attack e1" by simp
  note m1 = attack_hero_miss_iff [OF this, of g1]
  obtain ed g3 where h: "attack_hero e1 g1 = (ed, g3)"
    by (cases "attack_hero e1 g1") auto
  have loop: "((hero s' = hero s) = (ed = 0)) \<and>
      ((current_hp (hero s') = current_hp (hero s)) = (ed = 0)) \<and>
      ((battle_log s' ! (length (battle_log s) + 2) = (turn_count s + 1, EnemyMisses (e_name e1)))
        = (ed = 0))"
  proof (cases "ed = 0")
    case True
    with h have h0: "attack_hero e1 g1 = (0, g3)" by simp
    from loop_body_miss [OF assms(5,6,7) h0] assms(8) True
    show ?thesis by (auto simp: nth_append)
  next
    case False
    obtain h1 ah where td: "take_damage (hero s) ed = (h1, ah)"
      by (cases "take_damage (hero s) ed") auto
    from take_damage_fields [OF td] have lt: "current_hp h1 < current_hp (hero s)" by simp
    then have "h1 \<noteq> hero s" by auto
    with loop_body_hit [OF assms(5,6,7) h False td] assms(8) False lt
    show ?thesis by (auto simp: nth_append)
  qed
  from h have "fst (attack_hero e1 g1) = ed" by simp
  with low m m1 loop show ?thesis by simp
qed

text \<open>The example hero against the example enemy with every draw 0: the enemy misses.\<close>

theorem enemy_miss_exact_witness:
  "(1::int) \<le> 1 \<and> (1::int) \<le> 100 \<and>
   example_enemy = fst (Enemy_init 1 False (sconst 0)) \<and>
   attack_enemy (hero (BattleSimulator_init example_hero example_enemy)) (sconst 0) =
     ((44, True), sconst 0) \<and>
   e_take_damage (enemy (BattleSimulator_init example_hero example_enemy)) 44 =
     (example_enemy\<lparr>e_current_hp := 48\<rparr>, 40) \<and>
   e_is_alive (example_enemy\<lparr>e_current_hp := 48\<rparr>) \<and>
   fst (random (sconst 0)) < 15 / 100 \<and>
   fst (attack_hero (example_enemy\<lparr>e_current_hp := 48\<rparr>) (sconst 0)) = 0 \<and>
   hero (fst (loop_body (BattleSimulator_init example_hero example_enemy) (sconst 0))) =
     example_hero \<and>
   battle_log (fst (loop_body (BattleSimulator_init example_hero example_enemy) (sconst 0))) ! 2 =
     (1, EnemyMisses ''Dark Dragon'')"
proof -
  define s where "s = BattleSimulator_init example_hero example_enemy"
  have f: "hero s = example_hero" "enemy s = example_enemy"
    "battle_log s = []" "turn_count s = 0" "max_turns s = 50"
    by (simp_all add: s_def BattleSimulator_init_def)
  have e: "example_enemy = fst (Enemy_init 1 False (sconst 0))"
    by (simp add: example_enemy_init)
  have a: "attack_enemy (hero s) (sconst 0) = ((44, True), sconst 0)"
    by (simp add: f example_attack)
  have t: "e_take_damage (enemy s) 44 = (example_enemy\<lparr>e_current_hp := 48\<rparr>, 40)"
    using example_damage [of 88] by (simp add: f example_enemy_def)
  have alive: "e_is_alive (example_enemy\<lparr>e_current_hp := 48\<rparr>)"
    by (simp add: e_is_alive_def)
  have r: "fst (random (sconst 0)) < 15 / 100"
    by (simp add: random_def)
  obtain s' g' broke where lb: "loop_body s (sconst 0) = (s', g', broke)"
    by (cases "loop_body s (sconst 0)") auto
  have at: "e_attack (enemy s) = e_attack example_enemy" by (simp add: f)
  from enemy_miss_exact [OF _ _ e at a t alive lb, of "sconst 0"] r
  have "fst (attack_hero (example_enemy\<lparr>e_current_hp := 48\<rparr>) (sconst 0)) = 0"
    and "hero s' = example_hero"
    and "battle_log s' ! 2 = (1, EnemyMisses ''Dark Dragon'')"
    by (simp_all add: f example_enemy_def numeral_2_eq_2)
  with lb a t alive r show ?thesis unfolding s_def [symmetric]
    by (simp add: f example_enemy_init)
qed


section \<open>The outcome at the turn ceiling\<close>

text \<open>
  Claim C1 says that a hero's hit that brings the enemy to 0 health or less on any turn up to
  and including the 50th makes \<^verbatim>\<open>simulate_battle\<close> return true, and that the timeout is
  reported only when the ceiling is reached with both combatants alive. The theorem runs the
  code on a battle in which the hero deals 8 damage in each of 50 turns to an enemy of 400
  health that always misses: the enemy dies by the hero's hit of turn 50, the loop is left
  through \<^verbatim>\<open>break\<close> with the defeat logged, and the test \<^verbatim>\<open>turn_count >= max_turns\<close> after the
  loop then logs the timeout and returns false, with the hero alive and the enemy at 0.
  Such a battle needs a hero far weaker than the enemy: by \<open>same_level_battle_short\<close> it
  does not arise when both are built from one level.
\<close>

theorem kill_on_last_turn_reported_as_timeout:
  "Hero_init ''Aria'' ''Warrior'' 1 False = Inr example_hero \<and>
   Enemy_init 22 False (5 ## 0 ## 0 ## slow_draws) = (slow_enemy, slow_draws) \<and>
   fst (simulate_battle (BattleSimulator_init example_hero slow_enemy) slow_draws) = False \<and>
   turn_count (fst (snd (simulate_battle (BattleSimulator_init example_hero slow_enemy) slow_draws)))
     = 50 \<and>
   is_alive (hero (fst (snd (simulate_battle (BattleSimulator_init example_hero slow_enemy)
     slow_draws)))) \<and>
   e_current_hp (enemy (fst (snd (simulate_battle (BattleSimulator_init example_hero slow_enemy)
     slow_draws)))) = 0 \<and>
   last (butlast (battle_log (fst (snd (simulate_battle
     (BattleSimulator_init example_hero slow_enemy) slow_draws))))) =
     (50, EnemyDefeated ''Dark Dragon'') \<and>
   last (battle_log (fst (snd (simulate_battle (BattleSimulator_init example_hero slow_enemy)
     slow_draws)))) = (50, BattleTimeout)"
proof -
  define s where "s = BattleSimulator_init example_hero slow_enemy"
  from simulate_battle_struct [of s slow_draws] obtain s0 where
    f: "hero s0 = hero s" "enemy s0 = enemy s" "turn_count s0 = turn_count s"
       "max_turns s0 = max_turns s"
    and sb: "simulate_battle s slow_draws =
          (if turn_count (fst (battle_loop s0 slow_draws)) \<ge> max_turns (fst (battle_loop s0 slow_draws))
           then (False, log_event (fst (battle_loop s0 slow_draws)) BattleTimeout,
                 snd (battle_loop s0 slow_draws))
           else (is_alive (hero (fst (battle_loop s0 slow_draws))),
                 log_event (fst (battle_loop s0 slow_draws))
                   (BattleEnd (is_alive (hero (fst (battle_loop s0 slow_draws))))),
                 snd (battle_loop s0 slow_draws)))"
    by blast
  have g: "hero s0 = example_hero" "enemy s0 = slow_enemy\<lparr>e_current_hp := 8 + 8 * int 49\<rparr>"
    "turn_count s0 = 49 - int 49" "max_turns s0 = 50"
    by (simp_all add: f s_def BattleSimulator_init_def slow_enemy_def)
  note r = slow_battle_loop [OF g]
  from r have "simulate_battle s slow_draws =
      (False, log_event (fst (battle_loop s0 slow_draws)) BattleTimeout,
       snd (battle_loop s0 slow_draws))"
    by (simp add: sb)
  with r show ?thesis unfolding s_def [symmetric]
    by (simp add: log_event_fields example_hero_init slow_enemy_init is_alive_def
        example_hero_def)
qed

section \<open>Validation\<close>

text \<open>
  The claim C8 as written fails on the code: \<^verbatim>\<open>Hero.__init__\<close> accepts the levels 0 and 500, and
  \<^verbatim>\<open>validate_arguments\<close> reports the level, not the class, when both are invalid.
\<close>

theorem construction_checks_counterexample:
  "Hero_init ''Aria'' ''Warrior'' 0 False =
     Inr \<lparr>name = ''Aria'', hero_class = ''Warrior'', level = 0, hardcore_mode = False,
          max_hp = 150, current_hp = 150, attack = 25, defense = 20,
          critical_chance = 15 / 100\<rparr> \<and>
   Hero_init ''Aria'' ''Warrior'' 500 False =
     Inr \<lparr>name = ''Aria'', hero_class = ''Warrior'', level = 500, hardcore_mode = False,
          max_hp = 5150, current_hp = 5150, attack = 1025, defense = 520,
          critical_chance = 75 / 100\<rparr> \<and>
   validate_arguments True
     \<lparr>player_name = ''Aria'', a_hero_class = ''Bard'', a_level = 0, a_hardcore_mode = False,
      battle_date = ''2024-01-01''\<rparr> = Inl (ValueError (LevelOutOfRange 0))"
proof -
  have "\<bar>0 :: int\<bar> < int_float_limit" and "\<bar>500 :: int\<bar> < int_float_limit"
    by (rule level_converts; simp)+
  then show ?thesis
    by (simp add: Hero_init_Warrior validate_arguments_def)
qed

text \<open>
  Claim C8, amended. \<^verbatim>\<open>validate_arguments\<close>, which \<^verbatim>\<open>main\<close> runs before it constructs the hero,
  raises a \<^verbatim>\<open>ValueError\<close> naming the level when the level is outside 1..100 (this check comes
  first), a \<^verbatim>\<open>ValueError\<close> naming the class when the level is in range and the class is not
  Warrior, Mage or Rogue, and with both valid raises nothing unless the battle date does not
  parse; the hero is then constructed. \<^verbatim>\<open>Hero.__init__\<close> itself checks no range of levels. An
  unknown class makes its first table lookup raise \<^verbatim>\<open>KeyError\<close>, whatever the level. With a
  valid class it constructs the hero for every integer level that converts to a float, which
  are the levels of magnitude below \<open>2\<^sup>1\<^sup>0\<^sup>2\<^sup>4 - 2\<^sup>9\<^sup>7\<^sup>0\<close> (0, the negative levels and those above
  100 among them), and raises \<^verbatim>\<open>OverflowError\<close> for every other level.
\<close>

theorem validation_precedes_construction:
  "(a_level a < 1 \<or> 100 < a_level a \<longrightarrow>
      validate_arguments date_ok a = Inl (ValueError (LevelOutOfRange (a_level a)))) \<and>
   (1 \<le> a_level a \<and> a_level a \<le> 100 \<and> a_hero_class a \<notin> set VALID_CLASSES \<longrightarrow>
      validate_arguments date_ok a = Inl (ValueError (InvalidHeroClass (a_hero_class a)))) \<and>
   (1 \<le> a_level a \<and> a_level a \<le> 100 \<and> a_hero_class a \<in> set VALID_CLASSES \<longrightarrow>
      validate_arguments date_ok a =
        (if date_ok then Inr () else Inl (ValueError (InvalidBattleDate (battle_date a)))) \<and>
      (\<exists>h. Hero_init (player_name a) (a_hero_class a) (a_level a) (a_hardcore_mode a) = Inr h)) \<and>
   (cls \<notin> set VALID_CLASSES \<longrightarrow> Hero_init nm cls lvl hc = Inl (KeyError cls)) \<and>
   (cls \<in> set VALID_CLASSES \<and> \<bar>lvl\<bar> < 2 ^ 1024 - 2 ^ 970 \<longrightarrow>
      (\<exists>h. Hero_init nm cls lvl hc = Inr h \<and> level h = lvl)) \<and>
   (cls \<in> set VALID_CLASSES \<and> 2 ^ 1024 - 2 ^ 970 \<le> \<bar>lvl\<bar> \<longrightarrow>
      Hero_init nm cls lvl hc = Inl OverflowError)"
proof -
  have v: "1 \<le> a_level a \<Longrightarrow> a_level a \<le> 100 \<Longrightarrow> a_hero_class a \<in> set VALID_CLASSES \<Longrightarrow>
      \<exists>h. Hero_init (player_name a) (a_hero_class a) (a_level a) (a_hardcore_mode a) = Inr h"
  proof -
    assume "1 \<le> a_level a" and "a_level a \<le> 100" and c: "a_hero_class a \<in> set VALID_CLASSES"
    then have "\<bar>a_level a\<bar> < int_float_limit" by (intro level_converts) simp_all
    from Hero_init_succeeds [OF c this, of "player_name a" "a_hardcore_mode a"]
    show ?thesis by blast
  qed
  have l: "cls \<in> set VALID_CLASSES \<Longrightarrow> \<bar>lvl\<bar> < int_float_limit \<Longrightarrow>
      \<exists>h. Hero_init nm cls lvl hc = Inr h \<and> level h = lvl"
    using Hero_init_succeeds [of cls lvl nm hc] by blast
  have o: "cls \<in> set VALID_CLASSES \<Longrightarrow> int_float_limit \<le> \<bar>lvl\<bar> \<Longrightarrow>
      Hero_init nm cls lvl hc = Inl OverflowError"
    by (rule Hero_init_overflow)
  have i: "cls \<notin> set VALID_CLASSES \<Longrightarrow> Hero_init nm cls lvl hc = Inl (KeyError cls)"
    by (rule Hero_init_invalid)
  have "(a_level a < 1 \<or> 100 < a_level a \<longrightarrow>
      validate_arguments date_ok a = Inl (ValueError (LevelOutOfRange (a_level a)))) \<and>
   (1 \<le> a_level a \<and> a_level a \<le> 100 \<and> a_hero_class a \<notin> set VALID_CLASSES \<longrightarrow>
      validate_arguments date_ok a = Inl (ValueError (InvalidHeroClass (a_hero_class a)))) \<and>
   (1 \<le> a_level a \<and> a_level a \<le> 100 \<and> a_hero_class a \<in> set VALID_CLASSES \<longrightarrow>
      validate_arguments date_ok a =
        (if date_ok then Inr () else Inl (ValueError (InvalidBattleDate (battle_date a)))))"
    by (simp add: validate_arguments_def)
  with v l i o show ?thesis unfolding int_float_limit_def by blast
qed

text \<open>
  Level 101, the class Bard, and a valid pair, each through validation and construction; then
  the constructor alone at the levels -3 and \<open>10\<^sup>4\<^sup>0\<^sup>0\<close>.
\<close>

theorem validation_precedes_construction_witness:
  "validate_arguments True
     \<lparr>player_name = ''Aria'', a_hero_class = ''Warrior'', a_level = 101,
      a_hardcore_mode = False, battle_date = ''2024-01-01''\<rparr>
     = Inl (ValueError (LevelOutOfRange 101)) \<and>
   validate_arguments True
     \<lparr>player_name = ''Aria'', a_hero_class = ''Bard'', a_level = 1,
      a_hardcore_mode = False, battle_date = ''2024-01-01''\<rparr>
     = Inl (ValueError (InvalidHeroClass ''Bard'')) \<and>
   validate_arguments True
     \<lparr>player_name = ''Aria'', a_hero_class = ''Warrior'', a_level = 1,
      a_hardcore_mode = False, battle_date = ''2024-01-01''\<rparr> = Inr () \<and>
   Hero_init ''Aria'' ''Warrior'' 1 False = Inr example_hero \<and>
   Hero_init ''Aria'' ''Bard'' 1 False = Inl (KeyError ''Bard'') \<and>
   (\<exists>h. Hero_init ''Aria'' ''Warrior'' (- 3) False = Inr h \<and> level h = - 3) \<and>
   Hero_init ''Aria'' ''Warrior'' (10 ^ 400) False = Inl OverflowError"
proof -
  have bard: "''Bard'' \<notin> set VALID_CLASSES" and war: "''Warrior'' \<in> set VALID_CLASSES"
    by (simp_all add: VALID_CLASSES_def)
  from validation_precedes_construction [where
      a = "\<lparr>player_name = ''Aria'', a_hero_class = ''Warrior'', a_level = 101,
            a_hardcore_mode = False, battle_date = ''2024-01-01''\<rparr>" and date_ok = True]
  have 1: "validate_arguments True
     \<lparr>player_name = ''Aria'', a_hero_class = ''Warrior'', a_level = 101,
      a_hardcore_mode = False, battle_date = ''2024-01-01''\<rparr>
     = Inl (ValueError (LevelOutOfRange 101))"
    by simp
  from validation_precedes_construction [where
      a = "\<lparr>player_name = ''Aria'', a_hero_class = ''Bard'', a_level = 1,
            a_hardcore_mode = False, battle_date = ''2024-01-01''\<rparr>" and date_ok = True
      and cls = "''Bard''" and nm = "''Aria''" and lvl = 1 and hc = False] bard
  have 2: "validate_arguments True
     \<lparr>player_name = ''Aria'', a_hero_class = ''Bard'', a_level = 1,
      a_hardcore_mode = False, battle_date = ''2024-01-01''\<rparr>
     = Inl (ValueError (InvalidHeroClass ''Bard''))"
    and 3: "Hero_init ''Aria'' ''Bard'' 1 False = Inl (KeyError ''Bard'')"
    by simp_all
  from validation_precedes_construction [where
      a = "\<lparr>player_name = ''Aria'', a_hero_class = ''Warrior'', a_level = 1,
            a_hardcore_mode = False, battle_date = ''2024-01-01''\<rparr>" and date_ok = True] war
  have 4: "validate_arguments True
     \<lparr>player_name = ''Aria'', a_hero_class = ''Warrior'', a_level = 1,
      a_hardcore_mode = False, battle_date = ''2024-01-01''\<rparr> = Inr ()"
    by simp
  have small: "\<bar>- 3 :: int\<bar> < 2 ^ 1024 - 2 ^ 970" by simp
  from validation_precedes_construction [where
      cls = "''Warrior''" and nm = "''Aria''" and lvl = "- 3" and hc = False] war small
  have 5: "\<exists>h. Hero_init ''Aria'' ''Warrior'' (- 3) False = Inr h \<and> level h = - 3"
    by blast
  have large: "(2 :: int) ^ 1024 - 2 ^ 970 \<le> \<bar>10 ^ 400\<bar>" by simp
  from validation_precedes_construction [where
      cls = "''Warrior''" and nm = "''Aria''" and lvl = "10 ^ 400" and hc = False] war large
  have 6: "Hero_init ''Aria'' ''Warrior'' (10 ^ 400) False = Inl OverflowError"
    by blast
  from 1 2 3 4 5 6 example_hero_init show ?thesis by simp
qed

end
